theory Spec2Isabelle
  imports Complex_Main "HOL-Library.AList"
begin

section \<open>JavaScript values\<close>

text \<open>
  The dashboard is TypeScript compiled to JavaScript; the interfaces of \<^verbatim>\<open>types.ts\<close> are
  erased at run time. What the handlers see is the value \<^verbatim>\<open>response.json()\<close> or
  \<^verbatim>\<open>JSON.parse\<close> produced, so the model works on JSON values. A finite number is
  modelled by the real it denotes (the only operation the code applies to a number is
  \<^verbatim>\<open>=== 0\<close>, and both zeros of a double denote 0). A literal too large for a double
  parses to \<^verbatim>\<open>Infinity\<close> or \<^verbatim>\<open>-Infinity\<close>, which is \<open>JInfinity\<close> with the sign
  (\<open>True\<close> for the positive one). An object lists its members in the order JavaScript
  enumerates them, with distinct keys. A string is a list of 8-bit characters.
\<close>

datatype json =
    JNull
  | JBool bool
  | JNum real
  | JInfinity bool
  | JStr string
  | JArr "json list"
  | JObj "(string \<times> json) list"

text \<open>A JavaScript value is a JSON value or \<^verbatim>\<open>undefined\<close>, which is \<open>None\<close>.\<close>

type_synonym jsval = "json option"

text \<open>ToBoolean: \<^verbatim>\<open>undefined\<close>, \<^verbatim>\<open>null\<close>, \<^verbatim>\<open>false\<close>, \<^verbatim>\<open>0\<close> and \<^verbatim>\<open>''\<close> are falsy.\<close>

fun truthy :: "jsval \<Rightarrow> bool" where
  "truthy None = False"
| "truthy (Some JNull) = False"
| "truthy (Some (JBool b)) = b"
| "truthy (Some (JNum x)) = (x \<noteq> 0)"
| "truthy (Some (JInfinity positive)) = True"
| "truthy (Some (JStr s)) = (s \<noteq> [])"
| "truthy (Some (JArr xs)) = True"
| "truthy (Some (JObj kvs)) = True"

definition falsy :: "jsval \<Rightarrow> bool" where
  "falsy v = (\<not> truthy v)"

text \<open>
  A plain object held in React state (a tool's state, a partial update) is a finite map
  from property names to values; the spread \<^verbatim>\<open>{...a, ...b}\<close> is \<open>a ++ b\<close>, and a
  member that is absent reads as \<^verbatim>\<open>undefined\<close>. The state interfaces of
  \<^verbatim>\<open>types.ts\<close> name the members: every tool's state has \<^verbatim>\<open>webhook\<close>, \<^verbatim>\<open>result\<close>,
  \<^verbatim>\<open>isLoading\<close>, \<^verbatim>\<open>error\<close> and \<^verbatim>\<open>rawResponse\<close>, and its query fields:
  \<^verbatim>\<open>url\<close> (On-Page SEO), \<^verbatim>\<open>topic\<close> (Keyword Generator, Blog Post Writer),
  \<^verbatim>\<open>domain\<close> and \<^verbatim>\<open>keyword\<close> (Rank Tracker). \<^verbatim>\<open>updateToolState\<close> is generic in the
  tool and merges a \<^verbatim>\<open>Partial\<close> of the tool's interface by spread, which is why the
  objects are maps here and not four record types.
\<close>

type_synonym obj = "string \<rightharpoonup> json"

text \<open>
  What a \<^verbatim>\<open>throw\<close> carries. The handlers only ask whether the value is an
  \<^verbatim>\<open>Error\<close> instance, and then read its message.
\<close>

datatype thrown = Error_instance string | Other_value

text \<open>\<^verbatim>\<open>e instanceof Error ? e.message : 'An unknown error occurred.'\<close>\<close>

fun errorMessage :: "thrown \<Rightarrow> string" where
  "errorMessage (Error_instance m) = m"
| "errorMessage Other_value = ''An unknown error occurred.''"

text \<open>
  \<^verbatim>\<open>x?.[0]\<close>: nothing for \<^verbatim>\<open>undefined\<close> and \<^verbatim>\<open>null\<close>; the first element of an
  array; the member named \<^verbatim>\<open>0\<close> of an object; the first character of a string;
  \<^verbatim>\<open>undefined\<close> for a number or a boolean.
\<close>

fun opt_index0 :: "jsval \<Rightarrow> jsval" where
  "opt_index0 None = None"
| "opt_index0 (Some JNull) = None"
| "opt_index0 (Some (JArr xs)) = (case xs of [] \<Rightarrow> None | x # _ \<Rightarrow> Some x)"
| "opt_index0 (Some (JObj kvs)) = map_of kvs ''0''"
| "opt_index0 (Some (JStr s)) = (case s of [] \<Rightarrow> None | c # _ \<Rightarrow> Some (JStr [c]))"
| "opt_index0 (Some (JBool b)) = None"
| "opt_index0 (Some (JNum x)) = None"
| "opt_index0 (Some (JInfinity positive)) = None"

text \<open>
  \<^verbatim>\<open>x.k\<close> for a member name \<open>k\<close> that no built-in prototype defines (every name the
  code reads: \<^verbatim>\<open>keywords\<close>, \<^verbatim>\<open>keyword\<close>, \<^verbatim>\<open>intent\<close>, \<^verbatim>\<open>blog_post_html\<close>,
  \<^verbatim>\<open>current_rank\<close>, \<^verbatim>\<open>previous_rank\<close>, the four tool names). Reading a property of
  \<^verbatim>\<open>null\<close> or \<^verbatim>\<open>undefined\<close> throws a TypeError, whose message is the engine's (V8's
  wording is used here; nothing below depends on it).
\<close>

definition null_read_message :: "string \<Rightarrow> string \<Rightarrow> string" where
  "null_read_message what k =
     ''Cannot read properties of '' @ what @ '' (reading '' @ [CHR 0x27] @ k @ [CHR 0x27] @ '')''"

fun get_prop :: "string \<Rightarrow> jsval \<Rightarrow> thrown + jsval" where
  "get_prop k None = Inl (Error_instance (null_read_message ''undefined'' k))"
| "get_prop k (Some JNull) = Inl (Error_instance (null_read_message ''null'' k))"
| "get_prop k (Some (JObj kvs)) = Inr (map_of kvs k)"
| "get_prop k (Some (JArr xs)) = Inr None"
| "get_prop k (Some (JStr s)) = Inr None"
| "get_prop k (Some (JBool b)) = Inr None"
| "get_prop k (Some (JNum x)) = Inr None"
| "get_prop k (Some (JInfinity positive)) = Inr None"

text \<open>\<^verbatim>\<open>x?.k\<close>: as \<^verbatim>\<open>x.k\<close>, but \<^verbatim>\<open>undefined\<close> where that would throw.\<close>

definition opt_prop :: "string \<Rightarrow> jsval \<Rightarrow> jsval" where
  "opt_prop k v = (case get_prop k v of Inl e \<Rightarrow> None | Inr r \<Rightarrow> r)"

text \<open>
  An object literal handed to \<^verbatim>\<open>JSON.stringify\<close>: members whose value is
  \<^verbatim>\<open>undefined\<close> are left out.
\<close>

fun json_object :: "(string \<times> jsval) list \<Rightarrow> (string \<times> json) list" where
  "json_object [] = []"
| "json_object ((k, None) # kvs) = json_object kvs"
| "json_object ((k, Some v) # kvs) = (k, v) # json_object kvs"

text \<open>\<^verbatim>\<open>String.prototype.trim\<close>: white space and line terminators, within 8-bit characters.\<close>

definition is_white_space :: "char \<Rightarrow> bool" where
  "is_white_space c =
     (c = CHR 0x09 \<or> c = CHR 0x0A \<or> c = CHR 0x0B \<or> c = CHR 0x0C \<or> c = CHR 0x0D
      \<or> c = CHR 0x20 \<or> c = CHR 0xA0)"

definition trim :: "string \<Rightarrow> string" where
  "trim s = rev (dropWhile is_white_space (rev (dropWhile is_white_space s)))"

definition startsWith :: "string \<Rightarrow> string \<Rightarrow> bool" where
  "startsWith s p = (take (length p) s = p)"

text \<open>The decimal digits of a number, for \<^verbatim>\<open>${response.status}\<close>.\<close>

definition digit_char :: "nat \<Rightarrow> char" where
  "digit_char d = char_of (48 + d)"

fun show_nat :: "nat \<Rightarrow> string" where
  "show_nat n = (if n < 10 then [digit_char n] else show_nat (n div 10) @ [digit_char (n mod 10)])"

section \<open>The webhook call\<close>

text \<open>
  A submit handler awaits one \<^verbatim>\<open>fetch\<close> and then \<^verbatim>\<open>response.json()\<close>. The
  environment decides how these end: the fetch rejects, or it resolves to a response with
  a status, whose body either parses to a JSON value or makes \<^verbatim>\<open>json()\<close> reject.
  \<^verbatim>\<open>response.ok\<close> is true for the statuses 200 to 299.
\<close>

datatype body = Body_json json | Body_invalid thrown

datatype fetch_outcome = Rejected thrown | Response nat body

definition ok :: "nat \<Rightarrow> bool" where
  "ok status = (200 \<le> status \<and> status \<le> 299)"

text \<open>
  The request a handler issues: a POST to the value of \<^verbatim>\<open>webhook\<close>, with the object
  that is handed to \<^verbatim>\<open>JSON.stringify\<close> for its body.
\<close>

datatype request = Post jsval "(string \<times> json) list"

datatype Tool = OnPageSEO | KeywordGenerator | BlogPostWriter | RankTracker

fun tool_name :: "Tool \<Rightarrow> string" where
  "tool_name OnPageSEO = ''On-Page SEO''"
| "tool_name KeywordGenerator = ''Keyword Generator''"
| "tool_name BlogPostWriter = ''Blog Post Writer''"
| "tool_name RankTracker = ''Rank Tracker''"

subsection \<open>Keyword Generator\<close>

text \<open>
  The shape check of \<^verbatim>\<open>KeywordGeneratorTool.handleSubmit\<close>: it yields the keyword array
  that becomes the result, or the exception thrown.
\<close>

definition invalid_keywords_structure :: string where
  "invalid_keywords_structure =
     ''Invalid data structure in webhook response. Expected an array with one object like: [{ ''
     @ [CHR 0x22] @ ''keywords'' @ [CHR 0x22] @ '': [...] }].''"

definition missing_keyword_properties :: string where
  "missing_keyword_properties =
     ''Keyword objects in the response are missing required properties like ''
     @ [CHR 0x22] @ ''keyword'' @ [CHR 0x22] @ '' or '' @ [CHR 0x22] @ ''intent'' @ [CHR 0x22] @ ''.''"

definition KeywordGenerator_check :: "json \<Rightarrow> thrown + json" where
  "KeywordGenerator_check data =
     (let keywordsData = opt_prop ''keywords'' (opt_index0 (Some data)) in
      case keywordsData of
        Some (JArr ks) \<Rightarrow>
          (case ks of
             [] \<Rightarrow> Inr (JArr ks)
           | k0 # _ \<Rightarrow>
               (case get_prop ''keyword'' (Some k0) of
                  Inl e \<Rightarrow> Inl e
                | Inr kw \<Rightarrow>
                    if kw = None then Inl (Error_instance missing_keyword_properties)
                    else (case get_prop ''intent'' (Some k0) of
                            Inl e \<Rightarrow> Inl e
                          | Inr intent \<Rightarrow>
                              if intent = None
                              then Inl (Error_instance missing_keyword_properties)
                              else Inr (JArr ks))))
      | _ \<Rightarrow> Inl (Error_instance invalid_keywords_structure))"

text \<open>
  \<^verbatim>\<open>handleSubmit\<close> up to its first \<^verbatim>\<open>await\<close>: the required-field guard, the
  reset of the state, and the request that goes out (none when the guard fires).
\<close>

definition KeywordGenerator_begin :: "obj \<Rightarrow> obj \<times> request option" where
  "KeywordGenerator_begin state =
     (if falsy (state ''webhook'') \<or> falsy (state ''topic'')
      then (state ++ [''error'' \<mapsto> JStr ''Webhook URL and topic are required.''], None)
      else (state ++ [''isLoading'' \<mapsto> JBool True, ''error'' \<mapsto> JNull,
                      ''result'' \<mapsto> JNull, ''rawResponse'' \<mapsto> JNull],
            Some (Post (state ''webhook'') (json_object [(''topic'', state ''topic'')]))))"

text \<open>
  The \<^verbatim>\<open>try\<close> block once the fetch has ended: the state after the updates it made,
  and the exception that left it, if any.
\<close>

definition KeywordGenerator_try :: "obj \<Rightarrow> fetch_outcome \<Rightarrow> obj \<times> thrown option" where
  "KeywordGenerator_try state outcome =
     (case outcome of
        Rejected e \<Rightarrow> (state, Some e)
      | Response status b \<Rightarrow>
          if \<not> ok status
          then (state, Some (Error_instance (''HTTP error! Status: '' @ show_nat status)))
          else (case b of
                  Body_invalid e \<Rightarrow> (state, Some e)
                | Body_json data \<Rightarrow>
                    (let state1 = state ++ [''rawResponse'' \<mapsto> data] in
                     case KeywordGenerator_check data of
                       Inl e \<Rightarrow> (state1, Some e)
                     | Inr keywordsData \<Rightarrow> (state1 ++ [''result'' \<mapsto> keywordsData], None))))"

text \<open>The \<^verbatim>\<open>try\<close> block with its \<^verbatim>\<open>catch\<close> and \<^verbatim>\<open>finally\<close>.\<close>

definition KeywordGenerator_settle :: "obj \<Rightarrow> fetch_outcome \<Rightarrow> obj" where
  "KeywordGenerator_settle state outcome =
     (case KeywordGenerator_try state outcome of
        (state1, None) \<Rightarrow> state1 ++ [''isLoading'' \<mapsto> JBool False]
      | (state1, Some e) \<Rightarrow>
          state1 ++ [''error'' \<mapsto> JStr (''Failed to generate keywords: '' @ errorMessage e)]
                 ++ [''isLoading'' \<mapsto> JBool False])"

text \<open>The whole handler: the final state and the requests issued.\<close>

definition KeywordGenerator_handleSubmit :: "obj \<Rightarrow> fetch_outcome \<Rightarrow> obj \<times> request list" where
  "KeywordGenerator_handleSubmit state outcome =
     (case KeywordGenerator_begin state of
        (state1, None) \<Rightarrow> (state1, [])
      | (state1, Some r) \<Rightarrow> (KeywordGenerator_settle state1 outcome, [r]))"

subsection \<open>Blog Post Writer\<close>

definition invalid_blog_content :: string where
  "invalid_blog_content =
     ''Invalid or empty HTML content in webhook response. Expected [{ ''
     @ [CHR 0x22] @ ''blog_post_html'' @ [CHR 0x22] @ '': '' @ [CHR 0x22] @ ''<html_string>''
     @ [CHR 0x22] @ '' }].''"

definition BlogPostWriter_check :: "json \<Rightarrow> thrown + json" where
  "BlogPostWriter_check data =
     (let htmlResult = opt_prop ''blog_post_html'' (opt_index0 (Some data)) in
      case htmlResult of
        Some (JStr s) \<Rightarrow>
          if trim s = [] then Inl (Error_instance invalid_blog_content) else Inr (JStr s)
      | _ \<Rightarrow> Inl (Error_instance invalid_blog_content))"

definition BlogPostWriter_begin :: "obj \<Rightarrow> obj \<times> request option" where
  "BlogPostWriter_begin state =
     (if falsy (state ''webhook'') \<or> falsy (state ''topic'')
      then (state ++ [''error'' \<mapsto> JStr ''Webhook URL and topic are required.''], None)
      else (state ++ [''isLoading'' \<mapsto> JBool True, ''error'' \<mapsto> JNull,
                      ''result'' \<mapsto> JNull, ''rawResponse'' \<mapsto> JNull],
            Some (Post (state ''webhook'') (json_object [(''topic'', state ''topic'')]))))"

definition BlogPostWriter_try :: "obj \<Rightarrow> fetch_outcome \<Rightarrow> obj \<times> thrown option" where
  "BlogPostWriter_try state outcome =
     (case outcome of
        Rejected e \<Rightarrow> (state, Some e)
      | Response status b \<Rightarrow>
          if \<not> ok status
          then (state, Some (Error_instance (''HTTP error! Status: '' @ show_nat status)))
          else (case b of
                  Body_invalid e \<Rightarrow> (state, Some e)
                | Body_json data \<Rightarrow>
                    (let state1 = state ++ [''rawResponse'' \<mapsto> data] in
                     case BlogPostWriter_check data of
                       Inl e \<Rightarrow> (state1, Some e)
                     | Inr htmlResult \<Rightarrow> (state1 ++ [''result'' \<mapsto> htmlResult], None))))"

definition BlogPostWriter_settle :: "obj \<Rightarrow> fetch_outcome \<Rightarrow> obj" where
  "BlogPostWriter_settle state outcome =
     (case BlogPostWriter_try state outcome of
        (state1, None) \<Rightarrow> state1 ++ [''isLoading'' \<mapsto> JBool False]
      | (state1, Some e) \<Rightarrow>
          state1 ++ [''error'' \<mapsto> JStr (''Failed to write blog post: '' @ errorMessage e)]
                 ++ [''isLoading'' \<mapsto> JBool False])"

definition BlogPostWriter_handleSubmit :: "obj \<Rightarrow> fetch_outcome \<Rightarrow> obj \<times> request list" where
  "BlogPostWriter_handleSubmit state outcome =
     (case BlogPostWriter_begin state of
        (state1, None) \<Rightarrow> (state1, [])
      | (state1, Some r) \<Rightarrow> (BlogPostWriter_settle state1 outcome, [r]))"

subsection \<open>On-Page SEO\<close>

definition invalid_report_content :: string where
  "invalid_report_content =
     ''Invalid or empty content in webhook response. Expected [{ ''
     @ [CHR 0x22] @ ''blog_post_html'' @ [CHR 0x22] @ '': '' @ [CHR 0x22] @ ''<string>''
     @ [CHR 0x22] @ '' }].''"

definition OnPageSeo_check :: "json \<Rightarrow> thrown + json" where
  "OnPageSeo_check data =
     (let reportData = opt_prop ''blog_post_html'' (opt_index0 (Some data)) in
      case reportData of
        Some (JStr s) \<Rightarrow>
          if trim s = [] then Inl (Error_instance invalid_report_content) else Inr (JStr s)
      | _ \<Rightarrow> Inl (Error_instance invalid_report_content))"

definition OnPageSeo_begin :: "obj \<Rightarrow> obj \<times> request option" where
  "OnPageSeo_begin state =
     (if falsy (state ''webhook'') \<or> falsy (state ''url'')
      then (state ++ [''error'' \<mapsto> JStr ''Webhook URL and page URL are required.''], None)
      else (state ++ [''isLoading'' \<mapsto> JBool True, ''error'' \<mapsto> JNull,
                      ''result'' \<mapsto> JNull, ''rawResponse'' \<mapsto> JNull],
            Some (Post (state ''webhook'') (json_object [(''url'', state ''url'')]))))"

definition OnPageSeo_try :: "obj \<Rightarrow> fetch_outcome \<Rightarrow> obj \<times> thrown option" where
  "OnPageSeo_try state outcome =
     (case outcome of
        Rejected e \<Rightarrow> (state, Some e)
      | Response status b \<Rightarrow>
          if \<not> ok status
          then (state, Some (Error_instance (''HTTP error! Status: '' @ show_nat status)))
          else (case b of
                  Body_invalid e \<Rightarrow> (state, Some e)
                | Body_json data \<Rightarrow>
                    (let state1 = state ++ [''rawResponse'' \<mapsto> data] in
                     case OnPageSeo_check data of
                       Inl e \<Rightarrow> (state1, Some e)
                     | Inr reportData \<Rightarrow> (state1 ++ [''result'' \<mapsto> reportData], None))))"

definition OnPageSeo_settle :: "obj \<Rightarrow> fetch_outcome \<Rightarrow> obj" where
  "OnPageSeo_settle state outcome =
     (case OnPageSeo_try state outcome of
        (state1, None) \<Rightarrow> state1 ++ [''isLoading'' \<mapsto> JBool False]
      | (state1, Some e) \<Rightarrow>
          state1 ++ [''error'' \<mapsto> JStr (''Failed to fetch analysis: '' @ errorMessage e)]
                 ++ [''isLoading'' \<mapsto> JBool False])"

definition OnPageSeo_handleSubmit :: "obj \<Rightarrow> fetch_outcome \<Rightarrow> obj \<times> request list" where
  "OnPageSeo_handleSubmit state outcome =
     (case OnPageSeo_begin state of
        (state1, None) \<Rightarrow> (state1, [])
      | (state1, Some r) \<Rightarrow> (OnPageSeo_settle state1 outcome, [r]))"

subsection \<open>Rank Tracker\<close>

definition invalid_rank_structure :: string where
  "invalid_rank_structure =
     ''Invalid data structure in webhook response. Expected an array with one object like: [{ ''
     @ [CHR 0x22] @ ''current_rank'' @ [CHR 0x22] @ '': number, ''
     @ [CHR 0x22] @ ''previous_rank'' @ [CHR 0x22] @ '': number }].''"

text \<open>
  The check and the mapping to \<^verbatim>\<open>RankTrackerResult\<close>: a rank that is \<^verbatim>\<open>=== 0\<close>
  becomes a sentinel string.
\<close>

definition RankTracker_check :: "json \<Rightarrow> thrown + json" where
  "RankTracker_check data =
     (let responseData = opt_index0 (Some data) in
      if falsy responseData then Inl (Error_instance invalid_rank_structure)
      else (case get_prop ''current_rank'' responseData of
              Inl e \<Rightarrow> Inl e
            | Inr None \<Rightarrow> Inl (Error_instance invalid_rank_structure)
            | Inr (Some current_rank) \<Rightarrow>
                (case get_prop ''previous_rank'' responseData of
                   Inl e \<Rightarrow> Inl e
                 | Inr None \<Rightarrow> Inl (Error_instance invalid_rank_structure)
                 | Inr (Some previous_rank) \<Rightarrow>
                     Inr (JObj
                       [(''Current Rank'',
                           if current_rank = JNum 0 then JStr ''Not Found'' else current_rank),
                        (''Previous Rank'',
                           if previous_rank = JNum 0 then JStr ''N/A'' else previous_rank)]))))"

definition RankTracker_begin :: "obj \<Rightarrow> obj \<times> request option" where
  "RankTracker_begin state =
     (if falsy (state ''webhook'') \<or> falsy (state ''domain'') \<or> falsy (state ''keyword'')
      then (state ++ [''error'' \<mapsto> JStr ''Webhook URL, domain, and keyword are required.''],
            None)
      else (state ++ [''isLoading'' \<mapsto> JBool True, ''error'' \<mapsto> JNull,
                      ''result'' \<mapsto> JNull, ''rawResponse'' \<mapsto> JNull],
            Some (Post (state ''webhook'')
                    (json_object [(''domain'', state ''domain''),
                                  (''keyword'', state ''keyword'')]))))"

definition RankTracker_try :: "obj \<Rightarrow> fetch_outcome \<Rightarrow> obj \<times> thrown option" where
  "RankTracker_try state outcome =
     (case outcome of
        Rejected e \<Rightarrow> (state, Some e)
      | Response status b \<Rightarrow>
          if \<not> ok status
          then (state, Some (Error_instance (''HTTP error! Status: '' @ show_nat status)))
          else (case b of
                  Body_invalid e \<Rightarrow> (state, Some e)
                | Body_json data \<Rightarrow>
                    (let state1 = state ++ [''rawResponse'' \<mapsto> data] in
                     case RankTracker_check data of
                       Inl e \<Rightarrow> (state1, Some e)
                     | Inr newResult \<Rightarrow> (state1 ++ [''result'' \<mapsto> newResult], None))))"

definition RankTracker_settle :: "obj \<Rightarrow> fetch_outcome \<Rightarrow> obj" where
  "RankTracker_settle state outcome =
     (case RankTracker_try state outcome of
        (state1, None) \<Rightarrow> state1 ++ [''isLoading'' \<mapsto> JBool False]
      | (state1, Some e) \<Rightarrow>
          state1 ++ [''error'' \<mapsto> JStr (''Failed to check rank: '' @ errorMessage e)]
                 ++ [''isLoading'' \<mapsto> JBool False])"

definition RankTracker_handleSubmit :: "obj \<Rightarrow> fetch_outcome \<Rightarrow> obj \<times> request list" where
  "RankTracker_handleSubmit state outcome =
     (case RankTracker_begin state of
        (state1, None) \<Rightarrow> (state1, [])
      | (state1, Some r) \<Rightarrow> (RankTracker_settle state1 outcome, [r]))"

subsection \<open>The four tools side by side\<close>

text \<open>
  \<^verbatim>\<open>renderActiveTool\<close> hands each component its own slice of the state; these select the
  component's handler by tool.
\<close>

fun submit_begin :: "Tool \<Rightarrow> obj \<Rightarrow> obj \<times> request option" where
  "submit_begin OnPageSEO = OnPageSeo_begin"
| "submit_begin KeywordGenerator = KeywordGenerator_begin"
| "submit_begin BlogPostWriter = BlogPostWriter_begin"
| "submit_begin RankTracker = RankTracker_begin"

fun submit_settle :: "Tool \<Rightarrow> obj \<Rightarrow> fetch_outcome \<Rightarrow> obj" where
  "submit_settle OnPageSEO = OnPageSeo_settle"
| "submit_settle KeywordGenerator = KeywordGenerator_settle"
| "submit_settle BlogPostWriter = BlogPostWriter_settle"
| "submit_settle RankTracker = RankTracker_settle"

fun submit_try :: "Tool \<Rightarrow> obj \<Rightarrow> fetch_outcome \<Rightarrow> obj \<times> thrown option" where
  "submit_try OnPageSEO = OnPageSeo_try"
| "submit_try KeywordGenerator = KeywordGenerator_try"
| "submit_try BlogPostWriter = BlogPostWriter_try"
| "submit_try RankTracker = RankTracker_try"

fun handleSubmit :: "Tool \<Rightarrow> obj \<Rightarrow> fetch_outcome \<Rightarrow> obj \<times> request list" where
  "handleSubmit OnPageSEO = OnPageSeo_handleSubmit"
| "handleSubmit KeywordGenerator = KeywordGenerator_handleSubmit"
| "handleSubmit BlogPostWriter = BlogPostWriter_handleSubmit"
| "handleSubmit RankTracker = RankTracker_handleSubmit"

fun shape_check :: "Tool \<Rightarrow> json \<Rightarrow> thrown + json" where
  "shape_check OnPageSEO = OnPageSeo_check"
| "shape_check KeywordGenerator = KeywordGenerator_check"
| "shape_check BlogPostWriter = BlogPostWriter_check"
| "shape_check RankTracker = RankTracker_check"

text \<open>The text each \<^verbatim>\<open>catch\<close> block puts before the message.\<close>

fun failure_text :: "Tool \<Rightarrow> string" where
  "failure_text OnPageSEO = ''Failed to fetch analysis: ''"
| "failure_text KeywordGenerator = ''Failed to generate keywords: ''"
| "failure_text BlogPostWriter = ''Failed to write blog post: ''"
| "failure_text RankTracker = ''Failed to check rank: ''"

text \<open>The text of the required-field guard.\<close>

fun required_text :: "Tool \<Rightarrow> string" where
  "required_text OnPageSEO = ''Webhook URL and page URL are required.''"
| "required_text KeywordGenerator = ''Webhook URL and topic are required.''"
| "required_text BlogPostWriter = ''Webhook URL and topic are required.''"
| "required_text RankTracker = ''Webhook URL, domain, and keyword are required.''"

text \<open>The fields each form lets the user fill in: the webhook input and the text inputs.\<close>

fun input_fields :: "Tool \<Rightarrow> string list" where
  "input_fields OnPageSEO = [''webhook'', ''url'']"
| "input_fields KeywordGenerator = [''webhook'', ''topic'']"
| "input_fields BlogPostWriter = [''webhook'', ''topic'']"
| "input_fields RankTracker = [''webhook'', ''domain'', ''keyword'']"

section \<open>The application state and its persistence\<close>

text \<open>
  \<^verbatim>\<open>localStorage\<close> maps keys to strings. The code does two things with the string it
  reads back: it tests it for truthiness and hands it to \<^verbatim>\<open>JSON.parse\<close>. A stored string
  is therefore modelled by what these make of it: the empty string, a non-empty string
  that \<^verbatim>\<open>JSON.parse\<close> rejects, or a text that \<^verbatim>\<open>JSON.parse\<close> turns into the value
  given. Storage access itself is taken not to throw.
\<close>

datatype stored_text = Empty_text | Malformed_text | Json_text json

type_synonym Storage = "string \<rightharpoonup> stored_text"

text \<open>
  What \<^verbatim>\<open>JSON.parse\<close> makes of the text that \<^verbatim>\<open>JSON.stringify\<close> writes for a value:
  the value itself, except that a non-finite number is written as \<^verbatim>\<open>null\<close>, at any
  depth.
\<close>

fun serialised :: "json \<Rightarrow> json" where
  "serialised JNull = JNull"
| "serialised (JBool b) = JBool b"
| "serialised (JNum x) = JNum x"
| "serialised (JInfinity positive) = JNull"
| "serialised (JStr s) = JStr s"
| "serialised (JArr xs) = JArr (map serialised xs)"
| "serialised (JObj kvs) = JObj (map (\<lambda>kv. (fst kv, serialised (snd kv))) kvs)"

type_synonym AppState = "Tool \<Rightarrow> obj"

definition LOCAL_STORAGE_KEY :: string where
  "LOCAL_STORAGE_KEY = ''n8n-seo-tool-webhooks''"

text \<open>\<^verbatim>\<open>savedWebhooks ? JSON.parse(savedWebhooks) : {}\<close>\<close>

fun parse_saved :: "stored_text option \<Rightarrow> thrown + json" where
  "parse_saved None = Inr (JObj [])"
| "parse_saved (Some Empty_text) = Inr (JObj [])"
| "parse_saved (Some Malformed_text) = Inl (Error_instance ''SyntaxError'')"
| "parse_saved (Some (Json_text v)) = Inr v"

text \<open>\<^verbatim>\<open>x || ''\<close>\<close>

fun or_empty :: "jsval \<Rightarrow> json" where
  "or_empty None = JStr []"
| "or_empty (Some v) = (if truthy (Some v) then v else JStr [])"

text \<open>
  The object literal each tool starts from, given the value of its \<^verbatim>\<open>webhook\<close> member.
\<close>

fun fresh_state :: "Tool \<Rightarrow> json \<Rightarrow> obj" where
  "fresh_state OnPageSEO w =
     [''webhook'' \<mapsto> w, ''url'' \<mapsto> JStr [], ''result'' \<mapsto> JNull,
      ''isLoading'' \<mapsto> JBool False, ''error'' \<mapsto> JNull, ''rawResponse'' \<mapsto> JNull]"
| "fresh_state KeywordGenerator w =
     [''webhook'' \<mapsto> w, ''topic'' \<mapsto> JStr [], ''result'' \<mapsto> JNull,
      ''isLoading'' \<mapsto> JBool False, ''error'' \<mapsto> JNull, ''rawResponse'' \<mapsto> JNull]"
| "fresh_state BlogPostWriter w =
     [''webhook'' \<mapsto> w, ''topic'' \<mapsto> JStr [], ''result'' \<mapsto> JNull,
      ''isLoading'' \<mapsto> JBool False, ''error'' \<mapsto> JNull, ''rawResponse'' \<mapsto> JNull]"
| "fresh_state RankTracker w =
     [''webhook'' \<mapsto> w, ''domain'' \<mapsto> JStr [], ''keyword'' \<mapsto> JStr [], ''result'' \<mapsto> JNull,
      ''isLoading'' \<mapsto> JBool False, ''error'' \<mapsto> JNull, ''rawResponse'' \<mapsto> JNull]"

text \<open>The \<^verbatim>\<open>try\<close> block of the \<^verbatim>\<open>useState\<close> initialiser in \<^verbatim>\<open>App\<close>.\<close>

definition initial_try :: "Storage \<Rightarrow> thrown + AppState" where
  "initial_try localStorage =
     (case parse_saved (localStorage LOCAL_STORAGE_KEY) of
        Inl e \<Rightarrow> Inl e
      | Inr initialWebhooks \<Rightarrow>
          (case get_prop (tool_name OnPageSEO) (Some initialWebhooks) of
             Inl e \<Rightarrow> Inl e
           | Inr w1 \<Rightarrow>
          (case get_prop (tool_name KeywordGenerator) (Some initialWebhooks) of
             Inl e \<Rightarrow> Inl e
           | Inr w2 \<Rightarrow>
          (case get_prop (tool_name BlogPostWriter) (Some initialWebhooks) of
             Inl e \<Rightarrow> Inl e
           | Inr w3 \<Rightarrow>
          (case get_prop (tool_name RankTracker) (Some initialWebhooks) of
             Inl e \<Rightarrow> Inl e
           | Inr w4 \<Rightarrow>
               Inr (\<lambda>tool. case tool of
                      OnPageSEO \<Rightarrow> fresh_state OnPageSEO (or_empty w1)
                    | KeywordGenerator \<Rightarrow> fresh_state KeywordGenerator (or_empty w2)
                    | BlogPostWriter \<Rightarrow> fresh_state BlogPostWriter (or_empty w3)
                    | RankTracker \<Rightarrow> fresh_state RankTracker (or_empty w4)))))))"

text \<open>The initialiser with its \<^verbatim>\<open>catch\<close>: the clean state when anything was thrown.\<close>

definition initialAppState :: "Storage \<Rightarrow> AppState" where
  "initialAppState localStorage =
     (case initial_try localStorage of
        Inl e \<Rightarrow> (\<lambda>tool. fresh_state tool (JStr []))
      | Inr appState \<Rightarrow> appState)"

text \<open>
  \<^verbatim>\<open>webhooks[tool] = v\<close> in module (strict) code, as \<^verbatim>\<open>JSON.stringify\<close> then sees the
  value: an object gets or replaces the member; an array gets a property that is not
  serialised; \<^verbatim>\<open>null\<close> and the primitives make the assignment throw a TypeError.
\<close>

fun set_member :: "string \<Rightarrow> json \<Rightarrow> json \<Rightarrow> thrown + json" where
  "set_member k v (JObj kvs) = Inr (JObj (AList.update k v kvs))"
| "set_member k v (JArr xs) = Inr (JArr xs)"
| "set_member k v JNull = Inl (Error_instance ''TypeError'')"
| "set_member k v (JStr s) = Inl (Error_instance ''TypeError'')"
| "set_member k v (JNum x) = Inl (Error_instance ''TypeError'')"
| "set_member k v (JInfinity positive) = Inl (Error_instance ''TypeError'')"
| "set_member k v (JBool b) = Inl (Error_instance ''TypeError'')"

text \<open>
  The \<^verbatim>\<open>try\<close> block of \<^verbatim>\<open>updateToolState\<close>: the store after
  \<^verbatim>\<open>setItem(LOCAL_STORAGE_KEY, JSON.stringify(webhooks))\<close>, or the exception thrown
  before \<^verbatim>\<open>setItem\<close> was reached.
\<close>

definition saveWebhook :: "Tool \<Rightarrow> json \<Rightarrow> Storage \<Rightarrow> thrown + Storage" where
  "saveWebhook tool w localStorage =
     (case parse_saved (localStorage LOCAL_STORAGE_KEY) of
        Inl e \<Rightarrow> Inl e
      | Inr webhooks \<Rightarrow>
          (case set_member (tool_name tool) w webhooks of
             Inl e \<Rightarrow> Inl e
           | Inr webhooks' \<Rightarrow>
               Inr (localStorage(LOCAL_STORAGE_KEY \<mapsto> Json_text (serialised webhooks')))))"

definition updateToolState :: "Tool \<Rightarrow> obj \<Rightarrow> Storage \<times> AppState \<Rightarrow> Storage \<times> AppState" where
  "updateToolState tool newState = (\<lambda>(localStorage, prevState).
     ((case newState ''webhook'' of
         None \<Rightarrow> localStorage
       | Some w \<Rightarrow>
           (case saveWebhook tool w localStorage of
              Inl e \<Rightarrow> localStorage
            | Inr localStorage' \<Rightarrow> localStorage')),
      prevState(tool := prevState tool ++ newState)))"

section \<open>The forms\<close>

text \<open>The \<^verbatim>\<open>disabled\<close> attribute of each submit button and of the inputs.\<close>

fun submit_disabled :: "Tool \<Rightarrow> obj \<Rightarrow> bool" where
  "submit_disabled OnPageSEO state =
     (truthy (state ''isLoading'') \<or> falsy (state ''webhook'') \<or> falsy (state ''url''))"
| "submit_disabled KeywordGenerator state =
     (truthy (state ''isLoading'') \<or> falsy (state ''webhook'') \<or> falsy (state ''topic''))"
| "submit_disabled BlogPostWriter state =
     (truthy (state ''isLoading'') \<or> falsy (state ''webhook'') \<or> falsy (state ''topic''))"
| "submit_disabled RankTracker state =
     (truthy (state ''isLoading'') \<or> falsy (state ''webhook'') \<or> falsy (state ''domain'')
      \<or> falsy (state ''keyword''))"

definition inputs_disabled :: "obj \<Rightarrow> bool" where
  "inputs_disabled state = truthy (state ''isLoading'')"

text \<open>
  The page as a transition system. A configuration is the store, the application state
  and, for each tool, the number of webhook requests that are out. The user can click a
  submit button that is not disabled, which runs the handler up to its \<^verbatim>\<open>await\<close>; the
  environment can end a request that is out, which runs the rest of the handler; the user
  can type into an input that is not disabled, which calls \<^verbatim>\<open>updateToolState\<close>. The
  handlers' own updates carry no \<^verbatim>\<open>webhook\<close> member, so they leave the store alone.
\<close>

type_synonym config = "Storage \<times> AppState \<times> (Tool \<Rightarrow> nat)"

datatype event = Click Tool | Settled Tool fetch_outcome | Edit Tool string string

inductive step :: "config \<Rightarrow> event \<Rightarrow> config \<Rightarrow> bool" where
  click:
    "\<not> submit_disabled t (app t) \<Longrightarrow> submit_begin t (app t) = (state1, r) \<Longrightarrow>
     step (ls, app, pending) (Click t)
          (ls, app(t := state1), pending(t := pending t + (case r of None \<Rightarrow> 0 | Some q \<Rightarrow> 1)))"
| settled:
    "0 < pending t \<Longrightarrow>
     step (ls, app, pending) (Settled t outcome)
          (ls, app(t := submit_settle t (app t) outcome), pending(t := pending t - 1))"
| edit:
    "\<not> inputs_disabled (app t) \<Longrightarrow> f \<in> set (input_fields t) \<Longrightarrow>
     updateToolState t [f \<mapsto> JStr v] (ls, app) = (ls', app') \<Longrightarrow>
     step (ls, app, pending) (Edit t f v) (ls', app', pending)"

inductive reachable :: "config \<Rightarrow> bool" where
  start: "reachable (ls, initialAppState ls, \<lambda>t. 0)"
| after: "reachable c \<Longrightarrow> step c e c' \<Longrightarrow> reachable c'"

section \<open>The On-Page SEO report renderer\<close>

text \<open>
  In a regular expression without the \<^verbatim>\<open>s\<close> flag, \<^verbatim>\<open>.\<close> matches any character that is
  not a line terminator: among 8-bit characters, line feed and carriage return.
\<close>

definition line_terminator :: "char \<Rightarrow> bool" where
  "line_terminator c = (c = CHR 0x0A \<or> c = CHR 0x0D)"

text \<open>\<^verbatim>\<open>s.replace(/c/g, r)\<close> for a single character \<open>c\<close> and a replacement without \<^verbatim>\<open>$\<close>.\<close>

definition replace_all_char :: "char \<Rightarrow> string \<Rightarrow> string \<Rightarrow> string" where
  "replace_all_char c r s = concat (map (\<lambda>x. if x = c then r else [x]) s)"

definition escapeHtml :: "string \<Rightarrow> string" where
  "escapeHtml unsafe =
     replace_all_char (CHR 0x27) ''&#039;''
       (replace_all_char (CHR 0x22) ''&quot;''
          (replace_all_char (CHR ''>'') ''&gt;''
             (replace_all_char (CHR ''<'') ''&lt;''
                (replace_all_char (CHR ''&'') ''&amp;'' unsafe))))"

text \<open>
  After an opening backtick, \<^verbatim>\<open>(.*?)`\<close>: the shortest run of characters other than line
  terminators that a backtick follows, and what comes after that backtick.
\<close>

fun code_close :: "string \<Rightarrow> (string \<times> string) option" where
  "code_close [] = None"
| "code_close (c # cs) =
     (if c = CHR 0x60 then Some ([], cs)
      else if line_terminator c then None
      else (case code_close cs of
              None \<Rightarrow> None
            | Some (codeContent, rest) \<Rightarrow> Some (c # codeContent, rest)))"

text \<open>
  The first \<^verbatim>\<open>replace\<close> of \<^verbatim>\<open>processLine\<close>, over \<^verbatim>\<open>/`(.*?)`/g\<close>: matches are taken
  from left to right; where no match starts, the character is kept.
\<close>

function codeSpans :: "string \<Rightarrow> string" where
  "codeSpans [] = []"
| "codeSpans (c # cs) =
     (if c = CHR 0x60
      then (case code_close cs of
              Some (codeContent, rest) \<Rightarrow>
                ''<code>'' @ escapeHtml codeContent @ ''</code>'' @ codeSpans rest
            | None \<Rightarrow> c # codeSpans cs)
      else c # codeSpans cs)"
  by pat_completeness auto
termination
proof (relation "measure length")
  have shorter: "length rest \<le> length cs" if "code_close cs = Some (codeContent, rest)"
    for cs codeContent rest
    using that
    by (induction cs arbitrary: codeContent rest) (auto split: if_splits option.splits)
  show "wf (measure length)"
    by simp
  show "(rest, c # cs) \<in> measure length"
    if "c = CHR 0x60" and "code_close cs = Some x2" and "(codeContent, rest) = x2"
    for c cs x2 codeContent rest
    using shorter [of cs codeContent rest] that by simp
qed simp_all

text \<open>
  After an opening \<^verbatim>\<open>**\<close>, \<^verbatim>\<open>(.*?)\*\*\<close>: the shortest run of characters other than
  line terminators that \<^verbatim>\<open>**\<close> follows, and what comes after it.
\<close>

fun bold_close :: "string \<Rightarrow> (string \<times> string) option" where
  "bold_close [] = None"
| "bold_close [c] = None"
| "bold_close (c # d # cs) =
     (if c = CHR ''*'' \<and> d = CHR ''*'' then Some ([], cs)
      else if line_terminator c then None
      else (case bold_close (d # cs) of
              None \<Rightarrow> None
            | Some (inner, rest) \<Rightarrow> Some (c # inner, rest)))"

text \<open>The second \<^verbatim>\<open>replace\<close>, over \<^verbatim>\<open>/\*\*(.*?)\*\*/g\<close> with \<^verbatim>\<open><strong>$1</strong>\<close>.\<close>

function bold :: "string \<Rightarrow> string" where
  "bold [] = []"
| "bold [c] = [c]"
| "bold (c # d # cs) =
     (if c = CHR ''*'' \<and> d = CHR ''*''
      then (case bold_close cs of
              Some (inner, rest) \<Rightarrow> ''<strong>'' @ inner @ ''</strong>'' @ bold rest
            | None \<Rightarrow> c # bold (d # cs))
      else c # bold (d # cs))"
  by pat_completeness auto
termination
proof (relation "measure length")
  have shorter: "length rest \<le> length cs" if "bold_close cs = Some (inner, rest)"
    for cs inner rest
    using that
    by (induction cs arbitrary: inner rest rule: bold_close.induct)
       (auto split: if_splits option.splits)
  show "wf (measure length)"
    by simp
  show "(rest, c # d # cs) \<in> measure length"
    if "c = CHR ''*'' \<and> d = CHR ''*''" and "bold_close cs = Some x2" and "(inner, rest) = x2"
    for c d cs x2 inner rest
    using shorter [of cs inner rest] that by simp
qed simp_all

definition processLine :: "string \<Rightarrow> string" where
  "processLine line = bold (codeSpans line)"

text \<open>\<^verbatim>\<open>text.split('\n\n')\<close> and \<^verbatim>\<open>block.split('\n')\<close>.\<close>

fun split_blocks :: "string \<Rightarrow> string list" where
  "split_blocks [] = [[]]"
| "split_blocks [c] = [[c]]"
| "split_blocks (c # d # cs) =
     (if c = CHR 0x0A \<and> d = CHR 0x0A then [] # split_blocks cs
      else (case split_blocks (d # cs) of
              [] \<Rightarrow> [[c]]
            | b # bs \<Rightarrow> (c # b) # bs))"

fun split_lines :: "string \<Rightarrow> string list" where
  "split_lines [] = [[]]"
| "split_lines (c # cs) =
     (if c = CHR 0x0A then [] # split_lines cs
      else (case split_lines cs of
              [] \<Rightarrow> [[c]]
            | l # ls \<Rightarrow> (c # l) # ls))"

text \<open>
  \<^verbatim>\<open>item.replace(/^\*   ?/, '')\<close>: a leading star with two spaces, and a third space if
  there is one, is removed.
\<close>

definition strip_marker :: "string \<Rightarrow> string" where
  "strip_marker item =
     (if startsWith item ''*   '' then drop 4 item
      else if startsWith item ''*  '' then drop 3 item
      else item)"

definition block_html :: "string \<Rightarrow> string" where
  "block_html block =
     (if startsWith (trim block) ''* ''
      then ''<ul>''
           @ concat (map (\<lambda>item. ''<li>'' @ processLine (strip_marker item) @ ''</li>'')
                         (split_lines block))
           @ ''</ul>''
      else if startsWith block ''## ''
      then ''<h2>'' @ processLine (drop 3 block) @ ''</h2>''
      else ''<p>'' @ processLine (replace_all_char (CHR 0x0A) ''<br />'' block) @ ''</p>'')"

definition parseMarkdown :: "string \<Rightarrow> string" where
  "parseMarkdown text =
     (if text = [] then [] else concat (map block_html (split_blocks text)))"

section \<open>Notions the properties are stated with\<close>

text \<open>Every field of the tool's form holds a truthy value, so the guard lets the submit pass.\<close>

definition required_filled :: "Tool \<Rightarrow> obj \<Rightarrow> bool" where
  "required_filled tool state = list_all (\<lambda>f. truthy (state f)) (input_fields tool)"

text \<open>The member \<open>k\<close> of a JSON object; a value that is not an object has none.\<close>

fun member :: "string \<Rightarrow> json \<Rightarrow> json option" where
  "member k (JObj kvs) = map_of kvs k"
| "member k JNull = None"
| "member k (JBool b) = None"
| "member k (JNum x) = None"
| "member k (JInfinity positive) = None"
| "member k (JStr s) = None"
| "member k (JArr xs) = None"

text \<open>
  The payload each tool expects its element to carry: a \<^verbatim>\<open>keywords\<close> array, a non-empty
  string under \<^verbatim>\<open>blog_post_html\<close>, or \<^verbatim>\<open>current_rank\<close> and \<^verbatim>\<open>previous_rank\<close> both
  present.
\<close>

fun carries_payload :: "Tool \<Rightarrow> json \<Rightarrow> bool" where
  "carries_payload KeywordGenerator e =
     (case member ''keywords'' e of Some (JArr ks) \<Rightarrow> True | _ \<Rightarrow> False)"
| "carries_payload BlogPostWriter e =
     (case member ''blog_post_html'' e of Some (JStr s) \<Rightarrow> s \<noteq> [] | _ \<Rightarrow> False)"
| "carries_payload OnPageSEO e =
     (case member ''blog_post_html'' e of Some (JStr s) \<Rightarrow> s \<noteq> [] | _ \<Rightarrow> False)"
| "carries_payload RankTracker e =
     (member ''current_rank'' e \<noteq> None \<and> member ''previous_rank'' e \<noteq> None)"

text \<open>The contract as the specification words it: an array whose first element carries the payload.\<close>

definition conforms :: "Tool \<Rightarrow> json \<Rightarrow> bool" where
  "conforms tool data =
     (case data of
        JArr xs \<Rightarrow> (case xs of [] \<Rightarrow> False | e # es \<Rightarrow> carries_payload tool e)
      | _ \<Rightarrow> False)"

text \<open>
  The contract with the element taken by position or by name: the first element of an
  array, or the member named \<^verbatim>\<open>0\<close> of an object.
\<close>

definition conforms_at_0 :: "Tool \<Rightarrow> json \<Rightarrow> bool" where
  "conforms_at_0 tool data =
     (case data of
        JArr xs \<Rightarrow> (case xs of [] \<Rightarrow> False | e # es \<Rightarrow> carries_payload tool e)
      | JObj kvs \<Rightarrow> (case map_of kvs ''0'' of None \<Rightarrow> False | Some e \<Rightarrow> carries_payload tool e)
      | _ \<Rightarrow> False)"

text \<open>
  A submit action fails when the fetch rejects, the status is not 2xx, the body does not
  parse, or the tool's shape check throws on the parsed value.
\<close>

definition submit_fails :: "Tool \<Rightarrow> fetch_outcome \<Rightarrow> bool" where
  "submit_fails tool outcome =
     (case outcome of
        Rejected e \<Rightarrow> True
      | Response status b \<Rightarrow>
          \<not> ok status \<or>
          (case b of Body_invalid e \<Rightarrow> True | Body_json data \<Rightarrow> isl (shape_check tool data)))"

text \<open>
  What the Keyword Generator asks of the keyword array: it is empty, or its first element
  has a \<^verbatim>\<open>keyword\<close> and an \<^verbatim>\<open>intent\<close> member.
\<close>

definition first_keyword_present :: "json list \<Rightarrow> bool" where
  "first_keyword_present ks =
     (case ks of
        [] \<Rightarrow> True
      | k0 # rest \<Rightarrow> member ''keyword'' k0 \<noteq> None \<and> member ''intent'' k0 \<noteq> None)"

text \<open>A stored string that is not the text of any JSON value.\<close>

fun unparsable :: "stored_text \<Rightarrow> bool" where
  "unparsable Empty_text = True"
| "unparsable Malformed_text = True"
| "unparsable (Json_text v) = False"

text \<open>The store is absent or empty, or holds the text of a JSON object.\<close>

fun holds_object :: "stored_text option \<Rightarrow> bool" where
  "holds_object None = True"
| "holds_object (Some Empty_text) = True"
| "holds_object (Some Malformed_text) = False"
| "holds_object (Some (Json_text v)) = (case v of JObj kvs \<Rightarrow> True | _ \<Rightarrow> False)"

text \<open>
  The store holds a text that does not parse, or the text of \<^verbatim>\<open>null\<close> or of a
  primitive value.
\<close>

fun holds_no_container :: "stored_text option \<Rightarrow> bool" where
  "holds_no_container None = False"
| "holds_no_container (Some Empty_text) = False"
| "holds_no_container (Some Malformed_text) = True"
| "holds_no_container (Some (Json_text v)) =
     (case v of JObj kvs \<Rightarrow> False | JArr xs \<Rightarrow> False | _ \<Rightarrow> True)"

text \<open>
  In a configuration, a tool has one request out when its \<^verbatim>\<open>isLoading\<close> is true and
  none otherwise.
\<close>

definition balanced :: "config \<Rightarrow> bool" where
  "balanced c =
     (case c of (ls, app, pending) \<Rightarrow>
        \<forall>t. pending t = (if truthy (app t ''isLoading'') then 1 else 0))"

text \<open>
  A short session from an empty store: the user types a webhook address and a topic into
  the Keyword Generator form and clicks its button.
\<close>

definition typed_webhook :: "Storage \<times> AppState" where
  "typed_webhook =
     updateToolState KeywordGenerator [''webhook'' \<mapsto> JStr ''https://n8n.example/hook'']
       (Map.empty, initialAppState Map.empty)"

definition typed_topic :: "Storage \<times> AppState" where
  "typed_topic = updateToolState KeywordGenerator [''topic'' \<mapsto> JStr ''seo''] typed_webhook"

definition clicked :: config where
  "clicked =
     (fst typed_topic,
      (snd typed_topic)
        (KeywordGenerator := fst (submit_begin KeywordGenerator (snd typed_topic KeywordGenerator))),
      (\<lambda>t. 0)(KeywordGenerator := 1))"

text \<open>The entity that stands for a character in escaped HTML.\<close>

definition html_entity :: "char \<Rightarrow> string" where
  "html_entity c =
     (if c = CHR ''&'' then ''&amp;''
      else if c = CHR ''<'' then ''&lt;''
      else if c = CHR ''>'' then ''&gt;''
      else if c = CHR 0x22 then ''&quot;''
      else if c = CHR 0x27 then ''&#039;''
      else [c])"

section \<open>The four handlers follow one pattern\<close>

lemma handleSubmit_unfold:
  "handleSubmit tool state outcome =
     (case submit_begin tool state of
        (state1, None) \<Rightarrow> (state1, [])
      | (state1, Some r) \<Rightarrow> (submit_settle tool state1 outcome, [r]))"
  by (cases tool)
     (simp_all add: OnPageSeo_handleSubmit_def KeywordGenerator_handleSubmit_def
        BlogPostWriter_handleSubmit_def RankTracker_handleSubmit_def
        split: prod.split option.split)

lemma submit_settle_unfold:
  "submit_settle tool state outcome =
     (case submit_try tool state outcome of
        (state1, None) \<Rightarrow> state1 ++ [''isLoading'' \<mapsto> JBool False]
      | (state1, Some e) \<Rightarrow>
          state1 ++ [''error'' \<mapsto> JStr (failure_text tool @ errorMessage e)]
                 ++ [''isLoading'' \<mapsto> JBool False])"
  by (cases tool)
     (simp_all add: OnPageSeo_settle_def KeywordGenerator_settle_def
        BlogPostWriter_settle_def RankTracker_settle_def
        split: prod.split option.split)

lemma submit_try_unfold:
  "submit_try tool state outcome =
     (case outcome of
        Rejected e \<Rightarrow> (state, Some e)
      | Response status b \<Rightarrow>
          if \<not> ok status
          then (state, Some (Error_instance (''HTTP error! Status: '' @ show_nat status)))
          else (case b of
                  Body_invalid e \<Rightarrow> (state, Some e)
                | Body_json data \<Rightarrow>
                    (case shape_check tool data of
                       Inl e \<Rightarrow> (state ++ [''rawResponse'' \<mapsto> data], Some e)
                     | Inr payload \<Rightarrow>
                         (state ++ [''rawResponse'' \<mapsto> data] ++ [''result'' \<mapsto> payload], None))))"
  by (cases tool)
     (simp_all add: OnPageSeo_try_def KeywordGenerator_try_def
        BlogPostWriter_try_def RankTracker_try_def Let_def
        split: fetch_outcome.split body.split sum.split)

lemma submit_begin_empty:
  assumes "f \<in> set (input_fields tool)" and "falsy (state f)"
  shows "submit_begin tool state = (state ++ [''error'' \<mapsto> JStr (required_text tool)], None)"
  using assms
  by (cases tool)
     (auto simp: OnPageSeo_begin_def KeywordGenerator_begin_def
        BlogPostWriter_begin_def RankTracker_begin_def)

lemma submit_begin_filled:
  assumes "required_filled tool state"
  shows "\<exists>r. submit_begin tool state =
           (state ++ [''isLoading'' \<mapsto> JBool True, ''error'' \<mapsto> JNull,
                      ''result'' \<mapsto> JNull, ''rawResponse'' \<mapsto> JNull], Some r)"
  using assms
  by (cases tool)
     (auto simp: required_filled_def falsy_def OnPageSeo_begin_def KeywordGenerator_begin_def
        BlogPostWriter_begin_def RankTracker_begin_def)

lemma handleSubmit_filled:
  assumes "required_filled tool state"
  shows "\<exists>r. handleSubmit tool state outcome =
           (submit_settle tool
              (state ++ [''isLoading'' \<mapsto> JBool True, ''error'' \<mapsto> JNull,
                         ''result'' \<mapsto> JNull, ''rawResponse'' \<mapsto> JNull]) outcome, [r])"
proof -
  from submit_begin_filled [OF assms] obtain r where
    "submit_begin tool state =
       (state ++ [''isLoading'' \<mapsto> JBool True, ''error'' \<mapsto> JNull,
                  ''result'' \<mapsto> JNull, ''rawResponse'' \<mapsto> JNull], Some r)"
    by blast
  then show ?thesis
    by (simp add: handleSubmit_unfold)
qed

lemma submit_try_thrown:
  assumes "submit_fails tool outcome"
  shows "\<exists>state1 e. submit_try tool state outcome = (state1, Some e)
           \<and> state1 ''result'' = state ''result''"
  using assms
  by (auto simp: submit_fails_def submit_try_unfold
           split: fetch_outcome.splits body.splits sum.splits)

lemma settle_after_throw:
  assumes "submit_try tool state outcome = (state1, Some e)"
  shows "submit_settle tool state outcome ''error'' =
           Some (JStr (failure_text tool @ errorMessage e))"
    and "submit_settle tool state outcome ''result'' = state1 ''result''"
    and "submit_settle tool state outcome ''isLoading'' = Some (JBool False)"
  using assms by (simp_all add: submit_settle_unfold)

lemma handleSubmit_accepted:
  assumes "required_filled tool state" and "ok status"
    and "shape_check tool data = Inr payload"
  shows "fst (handleSubmit tool state (Response status (Body_json data))) ''result''
           = Some payload"
    and "fst (handleSubmit tool state (Response status (Body_json data))) ''error''
           = Some JNull"
    and "fst (handleSubmit tool state (Response status (Body_json data))) ''isLoading''
           = Some (JBool False)"
    and "fst (handleSubmit tool state (Response status (Body_json data))) ''rawResponse''
           = Some data"
proof -
  from handleSubmit_filled [OF assms(1)] obtain r where
    h: "handleSubmit tool state (Response status (Body_json data)) =
          (submit_settle tool
             (state ++ [''isLoading'' \<mapsto> JBool True, ''error'' \<mapsto> JNull,
                        ''result'' \<mapsto> JNull, ''rawResponse'' \<mapsto> JNull])
             (Response status (Body_json data)), [r])"
    by blast
  show "fst (handleSubmit tool state (Response status (Body_json data))) ''result''
          = Some payload"
    using assms(2,3) by (simp add: h submit_settle_unfold submit_try_unfold)
  show "fst (handleSubmit tool state (Response status (Body_json data))) ''error''
          = Some JNull"
    using assms(2,3) by (simp add: h submit_settle_unfold submit_try_unfold)
  show "fst (handleSubmit tool state (Response status (Body_json data))) ''isLoading''
          = Some (JBool False)"
    using assms(2,3) by (simp add: h submit_settle_unfold submit_try_unfold)
  show "fst (handleSubmit tool state (Response status (Body_json data))) ''rawResponse''
          = Some data"
    using assms(2,3) by (simp add: h submit_settle_unfold submit_try_unfold)
qed

section \<open>The shape checks\<close>

lemma opt_prop_member [simp]: "opt_prop k (Some e) = member k e"
  by (cases e) (simp_all add: opt_prop_def)

lemma opt_prop_undefined [simp]: "opt_prop k None = None"
  by (simp add: opt_prop_def)

lemma get_prop_member: "e \<noteq> JNull \<Longrightarrow> get_prop k (Some e) = Inr (member k e)"
  by (cases e) simp_all

lemma trim_empty [simp]: "trim [] = []"
  by (simp add: trim_def)

lemma RankTracker_check_element:
  "RankTracker_check data =
     (case opt_index0 (Some data) of
        None \<Rightarrow> Inl (Error_instance invalid_rank_structure)
      | Some e \<Rightarrow>
          (case member ''current_rank'' e of
             None \<Rightarrow> Inl (Error_instance invalid_rank_structure)
           | Some c \<Rightarrow>
               (case member ''previous_rank'' e of
                  None \<Rightarrow> Inl (Error_instance invalid_rank_structure)
                | Some p \<Rightarrow>
                    Inr (JObj [(''Current Rank'', if c = JNum 0 then JStr ''Not Found'' else c),
                               (''Previous Rank'', if p = JNum 0 then JStr ''N/A'' else p)]))))"
proof (cases "opt_index0 (Some data)")
  case None
  then show ?thesis
    by (simp add: RankTracker_check_def falsy_def)
next
  case (Some e)
  then show ?thesis
    by (cases e) (simp_all add: RankTracker_check_def falsy_def Let_def split: option.splits)
qed

lemma nonconforming_rejected:
  assumes "\<not> conforms_at_0 tool data"
  shows "isl (shape_check tool data)"
proof (cases tool)
  case OnPageSEO
  with assms show ?thesis
    by (cases data)
       (auto simp: conforms_at_0_def OnPageSeo_check_def
             split: list.splits option.splits json.splits)
next
  case KeywordGenerator
  with assms show ?thesis
    by (cases data)
       (auto simp: conforms_at_0_def KeywordGenerator_check_def
             split: list.splits option.splits json.splits)
next
  case BlogPostWriter
  with assms show ?thesis
    by (cases data)
       (auto simp: conforms_at_0_def BlogPostWriter_check_def
             split: list.splits option.splits json.splits)
next
  case RankTracker
  with assms show ?thesis
    by (cases data)
       (auto simp: conforms_at_0_def RankTracker_check_element
             split: list.splits option.splits)
qed

lemma KeywordGenerator_check_valid:
  assumes "member ''keywords'' e = Some (JArr ks)" and "first_keyword_present ks"
  shows "KeywordGenerator_check (JArr (e # es)) = Inr (JArr ks)"
proof (cases ks)
  case Nil
  with assms(1) show ?thesis
    by (simp add: KeywordGenerator_check_def)
next
  case (Cons k0 rest)
  with assms(2) obtain kw intent where
    m: "member ''keyword'' k0 = Some kw" "member ''intent'' k0 = Some intent"
    by (auto simp: first_keyword_present_def)
  then have "k0 \<noteq> JNull"
    by auto
  then have "get_prop ''keyword'' (Some k0) = Inr (Some kw)"
    and "get_prop ''intent'' (Some k0) = Inr (Some intent)"
    using m by (simp_all add: get_prop_member)
  with assms(1) Cons show ?thesis
    by (simp add: KeywordGenerator_check_def)
qed

lemma html_check_valid:
  assumes "member ''blog_post_html'' e = Some (JStr s)" and "trim s \<noteq> []"
  shows "BlogPostWriter_check (JArr (e # es)) = Inr (JStr s)"
    and "OnPageSeo_check (JArr (e # es)) = Inr (JStr s)"
  using assms by (simp_all add: BlogPostWriter_check_def OnPageSeo_check_def)

lemma RankTracker_check_ranks:
  assumes "member ''current_rank'' e = Some c" and "member ''previous_rank'' e = Some p"
  shows "RankTracker_check (JArr (e # es)) =
           Inr (JObj [(''Current Rank'', if c = JNum 0 then JStr ''Not Found'' else c),
                      (''Previous Rank'', if p = JNum 0 then JStr ''N/A'' else p)])"
  using assms by (simp add: RankTracker_check_element)

section \<open>Responses that do not match the contract\<close>

text \<open>
  Claim C1, as stated: a response that is not an array whose first element carries the
  tool's payload is treated as an error. The handlers take the element with
  \<^verbatim>\<open>data?.[0]\<close>, which also reads the member named \<^verbatim>\<open>0\<close> of an object, and none of
  them tests that the response is an array. So an object with such a member is accepted:
  the Keyword Generator stores the keyword list of \<^verbatim>\<open>{"0": {"keywords": [...]}}\<close> and
  sets no error.
\<close>

theorem object_with_member_0_is_accepted:
  "\<not> conforms KeywordGenerator
        (JObj [(''0'', JObj [(''keywords'',
           JArr [JObj [(''keyword'', JStr ''seo audit''), (''intent'', JStr ''commercial'')]])])])
   \<and> fst (handleSubmit KeywordGenerator
        (fresh_state KeywordGenerator (JStr ''https://n8n.example/hook'')
           ++ [''topic'' \<mapsto> JStr ''seo''])
        (Response 200 (Body_json
          (JObj [(''0'', JObj [(''keywords'',
             JArr [JObj [(''keyword'', JStr ''seo audit''),
                         (''intent'', JStr ''commercial'')]])])]))))
        ''error'' = Some JNull
   \<and> fst (handleSubmit KeywordGenerator
        (fresh_state KeywordGenerator (JStr ''https://n8n.example/hook'')
           ++ [''topic'' \<mapsto> JStr ''seo''])
        (Response 200 (Body_json
          (JObj [(''0'', JObj [(''keywords'',
             JArr [JObj [(''keyword'', JStr ''seo audit''),
                         (''intent'', JStr ''commercial'')]])])]))))
        ''result''
      = Some (JArr [JObj [(''keyword'', JStr ''seo audit''), (''intent'', JStr ''commercial'')]])"
  by (simp add: conforms_def KeywordGenerator_handleSubmit_def KeywordGenerator_begin_def
        KeywordGenerator_settle_def KeywordGenerator_try_def KeywordGenerator_check_def
        falsy_def ok_def)

text \<open>
  Claim C1, amended: when the element at position or member \<^verbatim>\<open>0\<close> of a 2xx response
  does not carry the tool's payload (in particular when the response is an array whose
  first element does not, or is no array and no object), and the form was filled in, the
  handler sets an error message that begins with the tool's failure text, which is
  non-empty and so shown, and the result stays \<^verbatim>\<open>null\<close>.
\<close>

theorem nonconforming_response_is_error:
  assumes "required_filled tool state" and "ok status" and "\<not> conforms_at_0 tool data"
  shows "(\<exists>m. fst (handleSubmit tool state (Response status (Body_json data))) ''error''
               = Some (JStr (failure_text tool @ m)))
       \<and> truthy (fst (handleSubmit tool state (Response status (Body_json data))) ''error'')
       \<and> fst (handleSubmit tool state (Response status (Body_json data))) ''result''
           = Some JNull"
proof -
  let ?outcome = "Response status (Body_json data)"
  let ?reset = "state ++ [''isLoading'' \<mapsto> JBool True, ''error'' \<mapsto> JNull,
                          ''result'' \<mapsto> JNull, ''rawResponse'' \<mapsto> JNull]"
  have "submit_fails tool ?outcome"
    using nonconforming_rejected [OF assms(3)] by (simp add: submit_fails_def)
  from submit_try_thrown [OF this] obtain state1 e where
    t: "submit_try tool ?reset ?outcome = (state1, Some e)"
    and r: "state1 ''result'' = ?reset ''result''"
    by blast
  from handleSubmit_filled [OF assms(1)] obtain q where
    h: "handleSubmit tool state ?outcome = (submit_settle tool ?reset ?outcome, [q])"
    by blast
  have nonempty: "failure_text tool @ errorMessage e \<noteq> []"
    by (cases tool) simp_all
  have "?reset ''result'' = Some JNull"
    by simp
  with h r settle_after_throw [OF t] nonempty show ?thesis
    by auto
qed

theorem nonconforming_response_is_error_witness:
  "required_filled RankTracker
     (fresh_state RankTracker (JStr ''https://n8n.example/hook'')
        ++ [''domain'' \<mapsto> JStr ''example.com'', ''keyword'' \<mapsto> JStr ''seo''])
   \<and> ok 200
   \<and> \<not> conforms_at_0 RankTracker (JArr [JObj [(''current_rank'', JNum 3)]])
   \<and> truthy (fst (handleSubmit RankTracker
        (fresh_state RankTracker (JStr ''https://n8n.example/hook'')
           ++ [''domain'' \<mapsto> JStr ''example.com'', ''keyword'' \<mapsto> JStr ''seo''])
        (Response 200 (Body_json (JArr [JObj [(''current_rank'', JNum 3)]])))) ''error'')
   \<and> fst (handleSubmit RankTracker
        (fresh_state RankTracker (JStr ''https://n8n.example/hook'')
           ++ [''domain'' \<mapsto> JStr ''example.com'', ''keyword'' \<mapsto> JStr ''seo''])
        (Response 200 (Body_json (JArr [JObj [(''current_rank'', JNum 3)]])))) ''result''
      = Some JNull"
proof -
  have a: "required_filled RankTracker
             (fresh_state RankTracker (JStr ''https://n8n.example/hook'')
                ++ [''domain'' \<mapsto> JStr ''example.com'', ''keyword'' \<mapsto> JStr ''seo''])"
    by (simp add: required_filled_def)
  have b: "ok 200"
    by (simp add: ok_def)
  have c: "\<not> conforms_at_0 RankTracker (JArr [JObj [(''current_rank'', JNum 3)]])"
    by (simp add: conforms_at_0_def)
  from nonconforming_response_is_error [OF a b c] a b c show ?thesis
    by blast
qed

section \<open>Failures of a submit action\<close>

text \<open>
  Claim C2: whenever a submit action fails (the fetch rejects, the status is not 2xx, the
  body does not parse as JSON, or the shape check throws), the exception is caught: the
  error message is the tool's failure text followed by a message, the result is
  \<^verbatim>\<open>null\<close>, \<^verbatim>\<open>isLoading\<close> is \<^verbatim>\<open>false\<close> again, and exactly one request went out, so
  nothing was retried.
\<close>

theorem failed_submit_is_caught:
  assumes "required_filled tool state" and "submit_fails tool outcome"
  shows "(\<exists>m. fst (handleSubmit tool state outcome) ''error''
               = Some (JStr (failure_text tool @ m)))
       \<and> fst (handleSubmit tool state outcome) ''result'' = Some JNull
       \<and> fst (handleSubmit tool state outcome) ''isLoading'' = Some (JBool False)
       \<and> length (snd (handleSubmit tool state outcome)) = 1"
proof -
  let ?reset = "state ++ [''isLoading'' \<mapsto> JBool True, ''error'' \<mapsto> JNull,
                          ''result'' \<mapsto> JNull, ''rawResponse'' \<mapsto> JNull]"
  from handleSubmit_filled [OF assms(1)] obtain r where
    h: "handleSubmit tool state outcome = (submit_settle tool ?reset outcome, [r])"
    by blast
  from submit_try_thrown [OF assms(2)] obtain state1 e where
    t: "submit_try tool ?reset outcome = (state1, Some e)"
    and r: "state1 ''result'' = ?reset ''result''"
    by blast
  have "?reset ''result'' = Some JNull"
    by simp
  with h r settle_after_throw [OF t] show ?thesis
    by auto
qed

theorem failed_submit_is_caught_witness:
  "required_filled OnPageSEO
     (fresh_state OnPageSEO (JStr ''https://n8n.example/hook'')
        ++ [''url'' \<mapsto> JStr ''https://example.com/page''])
   \<and> submit_fails OnPageSEO (Response 503 (Body_json JNull))
   \<and> fst (handleSubmit OnPageSEO
        (fresh_state OnPageSEO (JStr ''https://n8n.example/hook'')
           ++ [''url'' \<mapsto> JStr ''https://example.com/page''])
        (Response 503 (Body_json JNull))) ''result'' = Some JNull
   \<and> fst (handleSubmit OnPageSEO
        (fresh_state OnPageSEO (JStr ''https://n8n.example/hook'')
           ++ [''url'' \<mapsto> JStr ''https://example.com/page''])
        (Response 503 (Body_json JNull))) ''isLoading'' = Some (JBool False)
   \<and> length (snd (handleSubmit OnPageSEO
        (fresh_state OnPageSEO (JStr ''https://n8n.example/hook'')
           ++ [''url'' \<mapsto> JStr ''https://example.com/page''])
        (Response 503 (Body_json JNull)))) = 1"
proof -
  have a: "required_filled OnPageSEO
             (fresh_state OnPageSEO (JStr ''https://n8n.example/hook'')
                ++ [''url'' \<mapsto> JStr ''https://example.com/page''])"
    by (simp add: required_filled_def)
  have b: "submit_fails OnPageSEO (Response 503 (Body_json JNull))"
    by (simp add: submit_fails_def ok_def)
  from failed_submit_is_caught [OF a b] a b show ?thesis
    by blast
qed

section \<open>Responses that match the contract\<close>

text \<open>
  Claim C3, as stated, says of the Rank Tracker that the stored ranks equal the ranks of
  the response. A rank of 0 is replaced by design: for the response
  \<^verbatim>\<open>[{"current_rank": 0, "previous_rank": 4}]\<close> the stored current rank is the string
  \<^verbatim>\<open>Not Found\<close>, not 0.
\<close>

theorem rank_zero_is_not_stored_as_zero:
  "fst (handleSubmit RankTracker
        (fresh_state RankTracker (JStr ''https://n8n.example/hook'')
           ++ [''domain'' \<mapsto> JStr ''example.com'', ''keyword'' \<mapsto> JStr ''seo''])
        (Response 200 (Body_json
           (JArr [JObj [(''current_rank'', JNum 0), (''previous_rank'', JNum 4)]]))))
     ''result''
   = Some (JObj [(''Current Rank'', JStr ''Not Found''), (''Previous Rank'', JNum 4)])
   \<and> JStr ''Not Found'' \<noteq> JNum 0"
  by (simp add: RankTracker_handleSubmit_def RankTracker_begin_def RankTracker_settle_def
        RankTracker_try_def RankTracker_check_def falsy_def ok_def)

text \<open>
  Claim C3, amended: for a 2xx response to a filled-in form whose first element carries
  the tool's payload, the stored result is that payload: the Keyword Generator stores
  the \<^verbatim>\<open>keywords\<close> array unchanged when it is empty or its first element has
  \<^verbatim>\<open>keyword\<close> and \<^verbatim>\<open>intent\<close> (the validation the handler makes); the Blog Post Writer
  and On-Page SEO store the \<^verbatim>\<open>blog_post_html\<close> string unchanged when it is more than
  white space; the Rank Tracker stores the two ranks unchanged when neither of them is 0.
\<close>

theorem wellformed_response_is_stored:
  assumes "required_filled tool state" and "ok status"
  shows "(tool = KeywordGenerator \<and> member ''keywords'' e = Some (JArr ks)
            \<and> first_keyword_present ks
          \<longrightarrow> fst (handleSubmit tool state (Response status (Body_json (JArr (e # es)))))
                ''result'' = Some (JArr ks))
       \<and> ((tool = BlogPostWriter \<or> tool = OnPageSEO)
            \<and> member ''blog_post_html'' e = Some (JStr s) \<and> trim s \<noteq> []
          \<longrightarrow> fst (handleSubmit tool state (Response status (Body_json (JArr (e # es)))))
                ''result'' = Some (JStr s))
       \<and> (tool = RankTracker \<and> member ''current_rank'' e = Some c
            \<and> member ''previous_rank'' e = Some p \<and> c \<noteq> JNum 0 \<and> p \<noteq> JNum 0
          \<longrightarrow> fst (handleSubmit tool state (Response status (Body_json (JArr (e # es)))))
                ''result'' = Some (JObj [(''Current Rank'', c), (''Previous Rank'', p)]))"
proof (intro conjI impI)
  assume "tool = KeywordGenerator \<and> member ''keywords'' e = Some (JArr ks)
            \<and> first_keyword_present ks"
  then have "shape_check tool (JArr (e # es)) = Inr (JArr ks)"
    using KeywordGenerator_check_valid [of e ks es] by simp
  from handleSubmit_accepted(1) [OF assms this]
  show "fst (handleSubmit tool state (Response status (Body_json (JArr (e # es)))))
          ''result'' = Some (JArr ks)" .
next
  assume "(tool = BlogPostWriter \<or> tool = OnPageSEO)
            \<and> member ''blog_post_html'' e = Some (JStr s) \<and> trim s \<noteq> []"
  then have "shape_check tool (JArr (e # es)) = Inr (JStr s)"
    using html_check_valid [of e s es] by auto
  from handleSubmit_accepted(1) [OF assms this]
  show "fst (handleSubmit tool state (Response status (Body_json (JArr (e # es)))))
          ''result'' = Some (JStr s)" .
next
  assume "tool = RankTracker \<and> member ''current_rank'' e = Some c
            \<and> member ''previous_rank'' e = Some p \<and> c \<noteq> JNum 0 \<and> p \<noteq> JNum 0"
  then have "shape_check tool (JArr (e # es))
               = Inr (JObj [(''Current Rank'', c), (''Previous Rank'', p)])"
    using RankTracker_check_ranks [of e c p es] by simp
  from handleSubmit_accepted(1) [OF assms this]
  show "fst (handleSubmit tool state (Response status (Body_json (JArr (e # es)))))
          ''result'' = Some (JObj [(''Current Rank'', c), (''Previous Rank'', p)])" .
qed

theorem wellformed_response_is_stored_witness:
  "required_filled KeywordGenerator
     (fresh_state KeywordGenerator (JStr ''https://n8n.example/hook'')
        ++ [''topic'' \<mapsto> JStr ''seo''])
   \<and> ok 200
   \<and> first_keyword_present
        [JObj [(''keyword'', JStr ''seo audit''), (''intent'', JStr ''commercial'')]]
   \<and> fst (handleSubmit KeywordGenerator
        (fresh_state KeywordGenerator (JStr ''https://n8n.example/hook'')
           ++ [''topic'' \<mapsto> JStr ''seo''])
        (Response 200 (Body_json (JArr [JObj [(''keywords'', JArr
           [JObj [(''keyword'', JStr ''seo audit''), (''intent'', JStr ''commercial'')]])]]))))
        ''result''
      = Some (JArr [JObj [(''keyword'', JStr ''seo audit''), (''intent'', JStr ''commercial'')]])
   \<and> required_filled BlogPostWriter
        (fresh_state BlogPostWriter (JStr ''https://n8n.example/hook'')
           ++ [''topic'' \<mapsto> JStr ''seo''])
   \<and> trim ''<h2>SEO</h2>'' \<noteq> []
   \<and> fst (handleSubmit BlogPostWriter
        (fresh_state BlogPostWriter (JStr ''https://n8n.example/hook'')
           ++ [''topic'' \<mapsto> JStr ''seo''])
        (Response 200 (Body_json (JArr [JObj [(''blog_post_html'', JStr ''<h2>SEO</h2>'')]]))))
        ''result''
      = Some (JStr ''<h2>SEO</h2>'')
   \<and> required_filled OnPageSEO
        (fresh_state OnPageSEO (JStr ''https://n8n.example/hook'')
           ++ [''url'' \<mapsto> JStr ''https://example.com/page''])
   \<and> trim ''## Report'' \<noteq> []
   \<and> fst (handleSubmit OnPageSEO
        (fresh_state OnPageSEO (JStr ''https://n8n.example/hook'')
           ++ [''url'' \<mapsto> JStr ''https://example.com/page''])
        (Response 200 (Body_json (JArr [JObj [(''blog_post_html'', JStr ''## Report'')]]))))
        ''result''
      = Some (JStr ''## Report'')
   \<and> required_filled RankTracker
        (fresh_state RankTracker (JStr ''https://n8n.example/hook'')
           ++ [''domain'' \<mapsto> JStr ''example.com'', ''keyword'' \<mapsto> JStr ''seo''])
   \<and> JNum 3 \<noteq> JNum 0 \<and> JNum 7 \<noteq> JNum 0
   \<and> fst (handleSubmit RankTracker
        (fresh_state RankTracker (JStr ''https://n8n.example/hook'')
           ++ [''domain'' \<mapsto> JStr ''example.com'', ''keyword'' \<mapsto> JStr ''seo''])
        (Response 200 (Body_json
           (JArr [JObj [(''current_rank'', JNum 3), (''previous_rank'', JNum 7)]]))))
        ''result''
      = Some (JObj [(''Current Rank'', JNum 3), (''Previous Rank'', JNum 7)])"
proof -
  let ?kw = "JObj [(''keyword'', JStr ''seo audit''), (''intent'', JStr ''commercial'')]"
  have a: "required_filled KeywordGenerator
             (fresh_state KeywordGenerator (JStr ''https://n8n.example/hook'')
                ++ [''topic'' \<mapsto> JStr ''seo''])"
    by (simp add: required_filled_def)
  have b: "ok 200"
    by (simp add: ok_def)
  have c: "first_keyword_present [?kw]"
    by (simp add: first_keyword_present_def)
  have d: "member ''keywords'' (JObj [(''keywords'', JArr [?kw])]) = Some (JArr [?kw])"
    by simp
  have g: "required_filled BlogPostWriter
             (fresh_state BlogPostWriter (JStr ''https://n8n.example/hook'')
                ++ [''topic'' \<mapsto> JStr ''seo''])"
    by (simp add: required_filled_def)
  have h: "member ''blog_post_html'' (JObj [(''blog_post_html'', JStr ''<h2>SEO</h2>'')])
             = Some (JStr ''<h2>SEO</h2>'')"
          "trim ''<h2>SEO</h2>'' \<noteq> []"
    by (simp_all add: trim_def is_white_space_def)
  have i: "required_filled OnPageSEO
             (fresh_state OnPageSEO (JStr ''https://n8n.example/hook'')
                ++ [''url'' \<mapsto> JStr ''https://example.com/page''])"
    by (simp add: required_filled_def)
  have j: "member ''blog_post_html'' (JObj [(''blog_post_html'', JStr ''## Report'')])
             = Some (JStr ''## Report'')"
          "trim ''## Report'' \<noteq> []"
    by (simp_all add: trim_def is_white_space_def)
  have e: "required_filled RankTracker
             (fresh_state RankTracker (JStr ''https://n8n.example/hook'')
                ++ [''domain'' \<mapsto> JStr ''example.com'', ''keyword'' \<mapsto> JStr ''seo''])"
    by (simp add: required_filled_def)
  have f: "member ''current_rank''
             (JObj [(''current_rank'', JNum 3), (''previous_rank'', JNum 7)]) = Some (JNum 3)"
          "member ''previous_rank''
             (JObj [(''current_rank'', JNum 3), (''previous_rank'', JNum 7)]) = Some (JNum 7)"
          "JNum 3 \<noteq> JNum 0" "JNum 7 \<noteq> JNum 0"
    by simp_all
  from wellformed_response_is_stored
         [OF a b, where e = "JObj [(''keywords'', JArr [?kw])]" and ks = "[?kw]" and es = "[]"]
       c d
  have 1: "fst (handleSubmit KeywordGenerator
        (fresh_state KeywordGenerator (JStr ''https://n8n.example/hook'')
           ++ [''topic'' \<mapsto> JStr ''seo''])
        (Response 200 (Body_json (JArr [JObj [(''keywords'', JArr [?kw])]]))))
        ''result'' = Some (JArr [?kw])"
    by simp
  from wellformed_response_is_stored
         [OF g b, where e = "JObj [(''blog_post_html'', JStr ''<h2>SEO</h2>'')]"
            and s = "''<h2>SEO</h2>''" and es = "[]"]
       h
  have 2: "fst (handleSubmit BlogPostWriter
        (fresh_state BlogPostWriter (JStr ''https://n8n.example/hook'')
           ++ [''topic'' \<mapsto> JStr ''seo''])
        (Response 200 (Body_json (JArr [JObj [(''blog_post_html'', JStr ''<h2>SEO</h2>'')]]))))
        ''result'' = Some (JStr ''<h2>SEO</h2>'')"
    by simp
  from wellformed_response_is_stored
         [OF i b, where e = "JObj [(''blog_post_html'', JStr ''## Report'')]"
            and s = "''## Report''" and es = "[]"]
       j
  have 3: "fst (handleSubmit OnPageSEO
        (fresh_state OnPageSEO (JStr ''https://n8n.example/hook'')
           ++ [''url'' \<mapsto> JStr ''https://example.com/page''])
        (Response 200 (Body_json (JArr [JObj [(''blog_post_html'', JStr ''## Report'')]]))))
        ''result'' = Some (JStr ''## Report'')"
    by simp
  from wellformed_response_is_stored
         [OF e b, where e = "JObj [(''current_rank'', JNum 3), (''previous_rank'', JNum 7)]"
            and c = "JNum 3" and p = "JNum 7" and es = "[]"]
       f
  have 4: "fst (handleSubmit RankTracker
        (fresh_state RankTracker (JStr ''https://n8n.example/hook'')
           ++ [''domain'' \<mapsto> JStr ''example.com'', ''keyword'' \<mapsto> JStr ''seo''])
        (Response 200 (Body_json
           (JArr [JObj [(''current_rank'', JNum 3), (''previous_rank'', JNum 7)]]))))
        ''result'' = Some (JObj [(''Current Rank'', JNum 3), (''Previous Rank'', JNum 7)])"
    by simp
  show ?thesis
    by (intro conjI) (fact a b c g h(2) i j(2) e f(3) f(4) 1 2 3 4)+
qed

section \<open>Submitting an incomplete form\<close>

text \<open>
  Claim C9: when a field of the tool's form (the webhook address or a query field) is the
  empty string, the handler only sets the tool's 'required' message: no request is
  issued, and \<^verbatim>\<open>result\<close>, \<^verbatim>\<open>rawResponse\<close> and \<^verbatim>\<open>isLoading\<close> keep their values.
\<close>

theorem empty_required_field_blocks_submit:
  assumes "f \<in> set (input_fields tool)" and "state f = Some (JStr [])"
  shows "handleSubmit tool state outcome
           = (state ++ [''error'' \<mapsto> JStr (required_text tool)], [])
       \<and> fst (handleSubmit tool state outcome) ''result'' = state ''result''
       \<and> fst (handleSubmit tool state outcome) ''rawResponse'' = state ''rawResponse''
       \<and> fst (handleSubmit tool state outcome) ''isLoading'' = state ''isLoading''"
proof -
  have "falsy (state f)"
    using assms(2) by (simp add: falsy_def)
  with assms(1) have "submit_begin tool state
          = (state ++ [''error'' \<mapsto> JStr (required_text tool)], None)"
    by (rule submit_begin_empty)
  then have "handleSubmit tool state outcome
          = (state ++ [''error'' \<mapsto> JStr (required_text tool)], [])"
    by (simp add: handleSubmit_unfold)
  then show ?thesis
    by simp
qed

theorem empty_required_field_blocks_submit_witness:
  "''topic'' \<in> set (input_fields KeywordGenerator)
   \<and> fresh_state KeywordGenerator (JStr ''https://n8n.example/hook'') ''topic''
       = Some (JStr [])
   \<and> handleSubmit KeywordGenerator
        (fresh_state KeywordGenerator (JStr ''https://n8n.example/hook''))
        (Response 200 (Body_json JNull))
      = (fresh_state KeywordGenerator (JStr ''https://n8n.example/hook'')
           ++ [''error'' \<mapsto> JStr (required_text KeywordGenerator)], [])"
proof -
  have a: "''topic'' \<in> set (input_fields KeywordGenerator)"
    by simp
  have b: "fresh_state KeywordGenerator (JStr ''https://n8n.example/hook'') ''topic''
             = Some (JStr [])"
    by simp
  from empty_required_field_blocks_submit
         [of "''topic''" KeywordGenerator
             "fresh_state KeywordGenerator (JStr ''https://n8n.example/hook'')"
             "Response 200 (Body_json JNull)"]
       a b
  show ?thesis
    by blast
qed

section \<open>The rank sentinels\<close>

text \<open>
  Claim C10: in a well-formed Rank Tracker response, a current rank of exactly 0 is stored
  as \<^verbatim>\<open>Not Found\<close> and a previous rank of exactly 0 as \<^verbatim>\<open>N/A\<close>; every other rank
  value is stored as it came.
\<close>

theorem rank_zero_is_sentinel:
  assumes "required_filled RankTracker state" and "ok status"
    and "member ''current_rank'' e = Some c" and "member ''previous_rank'' e = Some p"
  shows "fst (handleSubmit RankTracker state (Response status (Body_json (JArr (e # es)))))
           ''result''
         = Some (JObj [(''Current Rank'', if c = JNum 0 then JStr ''Not Found'' else c),
                       (''Previous Rank'', if p = JNum 0 then JStr ''N/A'' else p)])"
proof -
  have "shape_check RankTracker (JArr (e # es)) =
          Inr (JObj [(''Current Rank'', if c = JNum 0 then JStr ''Not Found'' else c),
                     (''Previous Rank'', if p = JNum 0 then JStr ''N/A'' else p)])"
    using RankTracker_check_ranks [OF assms(3,4)] by simp
  from handleSubmit_accepted(1) [OF assms(1,2) this] show ?thesis .
qed

theorem rank_zero_is_sentinel_witness:
  "required_filled RankTracker
     (fresh_state RankTracker (JStr ''https://n8n.example/hook'')
        ++ [''domain'' \<mapsto> JStr ''example.com'', ''keyword'' \<mapsto> JStr ''seo''])
   \<and> ok 200
   \<and> fst (handleSubmit RankTracker
        (fresh_state RankTracker (JStr ''https://n8n.example/hook'')
           ++ [''domain'' \<mapsto> JStr ''example.com'', ''keyword'' \<mapsto> JStr ''seo''])
        (Response 200 (Body_json
           (JArr [JObj [(''current_rank'', JNum 5), (''previous_rank'', JNum 0)]]))))
        ''result''
      = Some (JObj [(''Current Rank'', JNum 5), (''Previous Rank'', JStr ''N/A'')])"
proof -
  have a: "required_filled RankTracker
             (fresh_state RankTracker (JStr ''https://n8n.example/hook'')
                ++ [''domain'' \<mapsto> JStr ''example.com'', ''keyword'' \<mapsto> JStr ''seo''])"
    by (simp add: required_filled_def)
  have b: "ok 200"
    by (simp add: ok_def)
  have c: "member ''current_rank''
             (JObj [(''current_rank'', JNum 5), (''previous_rank'', JNum 0)]) = Some (JNum 5)"
    by simp
  have d: "member ''previous_rank''
             (JObj [(''current_rank'', JNum 5), (''previous_rank'', JNum 0)]) = Some (JNum 0)"
    by simp
  from rank_zero_is_sentinel [OF a b c d, of "[]"] a b show ?thesis
    by simp
qed

section \<open>Persistence of the webhook addresses\<close>

lemma parse_saved_object:
  assumes "holds_object s"
  shows "\<exists>kvs. parse_saved s = Inr (JObj kvs)"
  using assms
  by (cases s rule: holds_object.cases) (auto split: json.splits)

lemma parse_saved_not_object:
  assumes "\<not> holds_object s"
  shows "s = Some Malformed_text \<or> (\<exists>v. s = Some (Json_text v) \<and> (\<forall>kvs. v \<noteq> JObj kvs))"
  using assms
  by (cases s rule: holds_object.cases) (auto split: json.splits)

lemma fresh_state_fields:
  "fresh_state tool w ''webhook'' = Some w"
  "fresh_state tool w ''result'' = Some JNull"
  "fresh_state tool w ''isLoading'' = Some (JBool False)"
  "fresh_state tool w ''error'' = Some JNull"
  "fresh_state tool w ''rawResponse'' = Some JNull"
  by (cases tool; simp)+

lemma initial_try_object:
  assumes "localStorage LOCAL_STORAGE_KEY = Some (Json_text (JObj kvs))"
  shows "initial_try localStorage =
           Inr (\<lambda>tool. fresh_state tool (or_empty (map_of kvs (tool_name tool))))"
  using assms
  by (auto simp: initial_try_def fun_eq_iff split: Tool.splits)

lemma map_of_serialised:
  "map_of (map (\<lambda>kv. (fst kv, serialised (snd kv))) kvs) k
     = map_option serialised (map_of kvs k)"
  by (induction kvs) auto

text \<open>
  Claim C4, as stated, holds for every webhook string with no condition on the store.
  When the text under the key does not parse, \<^verbatim>\<open>updateToolState\<close> catches the
  exception of \<^verbatim>\<open>JSON.parse\<close> and writes nothing, so the address typed is gone after a
  restart.
\<close>

theorem webhook_lost_on_corrupt_store:
  "initialAppState
     (fst (updateToolState OnPageSEO [''webhook'' \<mapsto> JStr ''https://n8n.example/hook'']
             ([LOCAL_STORAGE_KEY \<mapsto> Malformed_text],
              initialAppState [LOCAL_STORAGE_KEY \<mapsto> Malformed_text])))
     OnPageSEO ''webhook''
   = Some (JStr [])
   \<and> JStr [] \<noteq> JStr ''https://n8n.example/hook''"
  by (simp add: updateToolState_def saveWebhook_def initialAppState_def initial_try_def)

text \<open>
  Claim C4, amended: when the store is absent or empty, or holds the text of a JSON
  object, updating a tool's state with the webhook string \<open>w\<close> and then initialising
  the application again from the store gives that tool the state it starts from with
  \<^verbatim>\<open>webhook\<close> equal to \<open>w\<close>: every other field has its empty default.
\<close>

theorem webhook_round_trip:
  assumes "holds_object (localStorage LOCAL_STORAGE_KEY)"
    and "newState ''webhook'' = Some (JStr w)"
  shows "initialAppState (fst (updateToolState tool newState (localStorage, appState))) tool
           = fresh_state tool (JStr w)"
proof -
  from parse_saved_object [OF assms(1)] obtain kvs where
    p: "parse_saved (localStorage LOCAL_STORAGE_KEY) = Inr (JObj kvs)"
    by blast
  let ?kvs' = "map (\<lambda>kv. (fst kv, serialised (snd kv)))
                 (AList.update (tool_name tool) (JStr w) kvs)"
  have s: "fst (updateToolState tool newState (localStorage, appState))
             = localStorage(LOCAL_STORAGE_KEY \<mapsto> Json_text (JObj ?kvs'))"
    using assms(2) p by (simp add: updateToolState_def saveWebhook_def)
  have "initial_try (localStorage(LOCAL_STORAGE_KEY \<mapsto> Json_text (JObj ?kvs')))
          = Inr (\<lambda>t. fresh_state t (or_empty (map_of ?kvs' (tool_name t))))"
    by (rule initial_try_object) simp
  then have i: "initialAppState (localStorage(LOCAL_STORAGE_KEY \<mapsto> Json_text (JObj ?kvs'))) tool
                  = fresh_state tool (or_empty (map_of ?kvs' (tool_name tool)))"
    by (simp add: initialAppState_def)
  have o: "or_empty (map_of ?kvs' (tool_name tool)) = JStr w"
    by (simp add: map_of_serialised update_conv')
  show ?thesis
    unfolding s i o ..
qed

theorem webhook_round_trip_witness:
  "holds_object
     ([LOCAL_STORAGE_KEY \<mapsto> Json_text (JObj [(''On-Page SEO'', JStr ''https://n8n.example/seo'')])]
        LOCAL_STORAGE_KEY)
   \<and> [''webhook'' \<mapsto> JStr ''https://n8n.example/rank''] ''webhook''
       = Some (JStr ''https://n8n.example/rank'')
   \<and> initialAppState
        (fst (updateToolState RankTracker [''webhook'' \<mapsto> JStr ''https://n8n.example/rank'']
                ([LOCAL_STORAGE_KEY \<mapsto>
                    Json_text (JObj [(''On-Page SEO'', JStr ''https://n8n.example/seo'')])],
                 \<lambda>t. fresh_state t (JStr []))))
        RankTracker
      = fresh_state RankTracker (JStr ''https://n8n.example/rank'')"
proof -
  have a: "holds_object
             ([LOCAL_STORAGE_KEY \<mapsto>
                 Json_text (JObj [(''On-Page SEO'', JStr ''https://n8n.example/seo'')])]
                LOCAL_STORAGE_KEY)"
    by simp
  have b: "[''webhook'' \<mapsto> JStr ''https://n8n.example/rank''] ''webhook''
             = Some (JStr ''https://n8n.example/rank'')"
    by simp
  from webhook_round_trip
         [where localStorage =
                  "[LOCAL_STORAGE_KEY \<mapsto>
                      Json_text (JObj [(''On-Page SEO'', JStr ''https://n8n.example/seo'')])]"
            and newState = "[''webhook'' \<mapsto> JStr ''https://n8n.example/rank'']"
            and w = "''https://n8n.example/rank''" and tool = RankTracker
            and appState = "\<lambda>t. fresh_state t (JStr [])"]
       a b
  show ?thesis
    by blast
qed

text \<open>
  Claim C5: when the string under the key is not the text of a JSON value, start-up does
  not fail. The initialiser (which catches the exception of \<^verbatim>\<open>JSON.parse\<close>, and does
  not parse an empty string at all) returns the clean state: for every tool the webhook
  and the query fields are the empty string, \<^verbatim>\<open>result\<close> and \<^verbatim>\<open>error\<close> are
  \<^verbatim>\<open>null\<close>, and \<^verbatim>\<open>isLoading\<close> is \<^verbatim>\<open>false\<close>.
\<close>

theorem corrupt_store_falls_back:
  assumes "localStorage LOCAL_STORAGE_KEY = Some s" and "unparsable s"
  shows "initialAppState localStorage = (\<lambda>t. fresh_state t (JStr []))
       \<and> initialAppState localStorage tool ''webhook'' = Some (JStr [])
       \<and> (\<forall>f \<in> set (input_fields tool). initialAppState localStorage tool f = Some (JStr []))
       \<and> initialAppState localStorage tool ''result'' = Some JNull
       \<and> initialAppState localStorage tool ''error'' = Some JNull
       \<and> initialAppState localStorage tool ''isLoading'' = Some (JBool False)"
proof -
  have clean: "initialAppState localStorage = (\<lambda>t. fresh_state t (JStr []))"
  proof (cases s)
    case Empty_text
    with assms(1) have "initial_try localStorage = Inr (\<lambda>t. fresh_state t (JStr []))"
      by (auto simp: initial_try_def fun_eq_iff split: Tool.splits)
    then show ?thesis
      by (simp add: initialAppState_def)
  next
    case Malformed_text
    with assms(1) have "initial_try localStorage = Inl (Error_instance ''SyntaxError'')"
      by (simp add: initial_try_def)
    then show ?thesis
      by (simp add: initialAppState_def)
  next
    case (Json_text v)
    with assms(2) show ?thesis
      by simp
  qed
  have "\<forall>f \<in> set (input_fields tool). fresh_state tool (JStr []) f = Some (JStr [])"
    by (cases tool) simp_all
  with clean show ?thesis
    by (simp add: fresh_state_fields)
qed

theorem corrupt_store_falls_back_witness:
  "[LOCAL_STORAGE_KEY \<mapsto> Malformed_text] LOCAL_STORAGE_KEY = Some Malformed_text
   \<and> unparsable Malformed_text
   \<and> ''domain'' \<in> set (input_fields RankTracker)
   \<and> initialAppState [LOCAL_STORAGE_KEY \<mapsto> Malformed_text] RankTracker ''webhook''
       = Some (JStr [])
   \<and> initialAppState [LOCAL_STORAGE_KEY \<mapsto> Malformed_text] RankTracker ''domain''
       = Some (JStr [])
   \<and> initialAppState [LOCAL_STORAGE_KEY \<mapsto> Malformed_text] RankTracker ''isLoading''
       = Some (JBool False)"
proof -
  have a: "[LOCAL_STORAGE_KEY \<mapsto> Malformed_text] LOCAL_STORAGE_KEY = Some Malformed_text"
    by simp
  have u: "unparsable Malformed_text"
    by simp
  have b: "''domain'' \<in> set (input_fields RankTracker)"
    by simp
  from corrupt_store_falls_back
         [where localStorage = "[LOCAL_STORAGE_KEY \<mapsto> Malformed_text]"
            and s = Malformed_text and tool = RankTracker]
       a u b
  show ?thesis
    by blast
qed

text \<open>
  Claim C6, as stated, has \<^verbatim>\<open>updateToolState\<close> write to the store exactly when the
  update contains a webhook. When the text under the key does not parse, the update
  contains a webhook and yet \<^verbatim>\<open>setItem\<close> is never reached: the \<^verbatim>\<open>try\<close> block ends
  with the exception of \<^verbatim>\<open>JSON.parse\<close>, and the store is as before.
\<close>

theorem webhook_update_without_write:
  "[''webhook'' \<mapsto> JStr ''https://n8n.example/hook''] ''webhook'' \<noteq> None
   \<and> saveWebhook OnPageSEO (JStr ''https://n8n.example/hook'')
        [LOCAL_STORAGE_KEY \<mapsto> Malformed_text]
      = Inl (Error_instance ''SyntaxError'')
   \<and> fst (updateToolState OnPageSEO [''webhook'' \<mapsto> JStr ''https://n8n.example/hook'']
           ([LOCAL_STORAGE_KEY \<mapsto> Malformed_text], \<lambda>t. fresh_state t (JStr [])))
      = [LOCAL_STORAGE_KEY \<mapsto> Malformed_text]"
  by (simp add: updateToolState_def saveWebhook_def)

text \<open>
  Claim C6, amended: an update without a \<^verbatim>\<open>webhook\<close> member leaves the store unchanged.
  An update with one touches only the single key, and what it writes there depends only
  on what was stored and on the tool and its webhook, never on another field of the
  state. When a JSON object is read back (or the store is absent or empty), it writes
  \<^verbatim>\<open>JSON.stringify\<close> of that object with the tool's name mapped to the webhook; when an
  array is read back, it writes \<^verbatim>\<open>JSON.stringify\<close> of that array; in both,
  \<^verbatim>\<open>JSON.stringify\<close> turns a non-finite number into \<^verbatim>\<open>null\<close>. When the text does not
  parse, or is the text of \<^verbatim>\<open>null\<close> or of a primitive, nothing is written. In every
  case the tool's state becomes the old one overridden by the update, and the state of
  every other tool is unchanged.
\<close>

theorem only_webhook_is_persisted:
  "(newState ''webhook'' = None \<longrightarrow>
      fst (updateToolState tool newState (localStorage, appState)) = localStorage)
   \<and> (newState ''webhook'' = Some w
        \<and> parse_saved (localStorage LOCAL_STORAGE_KEY) = Inr (JObj kvs) \<longrightarrow>
      fst (updateToolState tool newState (localStorage, appState))
        = localStorage(LOCAL_STORAGE_KEY \<mapsto>
            Json_text (serialised (JObj (AList.update (tool_name tool) w kvs)))))
   \<and> (newState ''webhook'' = Some w
        \<and> localStorage LOCAL_STORAGE_KEY = Some (Json_text (JArr xs)) \<longrightarrow>
      fst (updateToolState tool newState (localStorage, appState))
        = localStorage(LOCAL_STORAGE_KEY \<mapsto> Json_text (serialised (JArr xs))))
   \<and> (newState ''webhook'' = Some w
        \<and> holds_no_container (localStorage LOCAL_STORAGE_KEY) \<longrightarrow>
      fst (updateToolState tool newState (localStorage, appState)) = localStorage)
   \<and> (\<forall>t. t \<noteq> tool \<longrightarrow>
        snd (updateToolState tool newState (localStorage, appState)) t = appState t)
   \<and> snd (updateToolState tool newState (localStorage, appState)) tool
        = appState tool ++ newState"
proof (intro conjI impI allI)
  assume "newState ''webhook'' = None"
  then show "fst (updateToolState tool newState (localStorage, appState)) = localStorage"
    by (simp add: updateToolState_def)
next
  assume "newState ''webhook'' = Some w
            \<and> parse_saved (localStorage LOCAL_STORAGE_KEY) = Inr (JObj kvs)"
  then show "fst (updateToolState tool newState (localStorage, appState))
               = localStorage(LOCAL_STORAGE_KEY \<mapsto>
                   Json_text (serialised (JObj (AList.update (tool_name tool) w kvs))))"
    by (simp add: updateToolState_def saveWebhook_def)
next
  assume "newState ''webhook'' = Some w
            \<and> localStorage LOCAL_STORAGE_KEY = Some (Json_text (JArr xs))"
  then show "fst (updateToolState tool newState (localStorage, appState))
               = localStorage(LOCAL_STORAGE_KEY \<mapsto> Json_text (serialised (JArr xs)))"
    by (simp add: updateToolState_def saveWebhook_def)
next
  assume a: "newState ''webhook'' = Some w
               \<and> holds_no_container (localStorage LOCAL_STORAGE_KEY)"
  then have "isl (saveWebhook tool w localStorage)"
    by (cases "localStorage LOCAL_STORAGE_KEY" rule: holds_no_container.cases)
       (auto simp: saveWebhook_def split: json.splits)
  with a show "fst (updateToolState tool newState (localStorage, appState)) = localStorage"
    by (cases "saveWebhook tool w localStorage") (simp_all add: updateToolState_def)
next
  fix t assume "t \<noteq> tool"
  then show "snd (updateToolState tool newState (localStorage, appState)) t = appState t"
    by (simp add: updateToolState_def)
next
  show "snd (updateToolState tool newState (localStorage, appState)) tool
          = appState tool ++ newState"
    by (simp add: updateToolState_def)
qed

theorem only_webhook_is_persisted_witness:
  "[''topic'' \<mapsto> JStr ''seo''] ''webhook'' = None
   \<and> fst (updateToolState KeywordGenerator [''topic'' \<mapsto> JStr ''seo'']
           ([LOCAL_STORAGE_KEY \<mapsto> Json_text (JObj [])], \<lambda>t. fresh_state t (JStr [])))
      = [LOCAL_STORAGE_KEY \<mapsto> Json_text (JObj [])]
   \<and> [''webhook'' \<mapsto> JStr ''https://n8n.example/seo''] ''webhook''
       = Some (JStr ''https://n8n.example/seo'')
   \<and> parse_saved
        ([LOCAL_STORAGE_KEY \<mapsto> Json_text (JObj [(''Rank Tracker'', JInfinity True)])]
           LOCAL_STORAGE_KEY)
      = Inr (JObj [(''Rank Tracker'', JInfinity True)])
   \<and> fst (updateToolState OnPageSEO [''webhook'' \<mapsto> JStr ''https://n8n.example/seo'']
           ([LOCAL_STORAGE_KEY \<mapsto> Json_text (JObj [(''Rank Tracker'', JInfinity True)])],
            \<lambda>t. fresh_state t (JStr [])))
        LOCAL_STORAGE_KEY
      = Some (Json_text (JObj [(''Rank Tracker'', JNull),
                                (''On-Page SEO'', JStr ''https://n8n.example/seo'')]))
   \<and> fst (updateToolState OnPageSEO [''webhook'' \<mapsto> JStr ''https://n8n.example/seo'']
           ([LOCAL_STORAGE_KEY \<mapsto> Json_text (JArr [JInfinity True])],
            \<lambda>t. fresh_state t (JStr [])))
        LOCAL_STORAGE_KEY
      = Some (Json_text (JArr [JNull]))
   \<and> holds_no_container ([LOCAL_STORAGE_KEY \<mapsto> Json_text JNull] LOCAL_STORAGE_KEY)
   \<and> fst (updateToolState OnPageSEO [''webhook'' \<mapsto> JStr ''https://n8n.example/seo'']
           ([LOCAL_STORAGE_KEY \<mapsto> Json_text JNull], \<lambda>t. fresh_state t (JStr [])))
      = [LOCAL_STORAGE_KEY \<mapsto> Json_text JNull]
   \<and> RankTracker \<noteq> OnPageSEO
   \<and> snd (updateToolState OnPageSEO [''webhook'' \<mapsto> JStr ''https://n8n.example/seo'']
           ([LOCAL_STORAGE_KEY \<mapsto> Json_text JNull], \<lambda>t. fresh_state t (JStr [])))
        RankTracker
      = fresh_state RankTracker (JStr [])"
proof -
  let ?u = "[''webhook'' \<mapsto> JStr ''https://n8n.example/seo'']"
  let ?w = "JStr ''https://n8n.example/seo''"
  let ?clean = "\<lambda>t. fresh_state t (JStr [])"
  have a: "[''topic'' \<mapsto> JStr ''seo''] ''webhook'' = None"
    by simp
  have b: "?u ''webhook'' = Some ?w"
    by simp
  have c: "parse_saved
             ([LOCAL_STORAGE_KEY \<mapsto> Json_text (JObj [(''Rank Tracker'', JInfinity True)])]
                LOCAL_STORAGE_KEY)
           = Inr (JObj [(''Rank Tracker'', JInfinity True)])"
    by simp
  have d: "[LOCAL_STORAGE_KEY \<mapsto> Json_text (JArr [JInfinity True])] LOCAL_STORAGE_KEY
             = Some (Json_text (JArr [JInfinity True]))"
    by simp
  have e: "holds_no_container ([LOCAL_STORAGE_KEY \<mapsto> Json_text JNull] LOCAL_STORAGE_KEY)"
    by simp
  have f: "RankTracker \<noteq> OnPageSEO"
    by simp
  have g: "serialised (JObj (AList.update (tool_name OnPageSEO) ?w
                               [(''Rank Tracker'', JInfinity True)]))
             = JObj [(''Rank Tracker'', JNull), (''On-Page SEO'', ?w)]"
          "serialised (JArr [JInfinity True]) = JArr [JNull]"
    by simp_all
  from only_webhook_is_persisted
         [of "[''topic'' \<mapsto> JStr ''seo'']" KeywordGenerator
             "[LOCAL_STORAGE_KEY \<mapsto> Json_text (JObj [])]" ?clean]
       a
  have 1: "fst (updateToolState KeywordGenerator [''topic'' \<mapsto> JStr ''seo'']
                  ([LOCAL_STORAGE_KEY \<mapsto> Json_text (JObj [])], ?clean))
             = [LOCAL_STORAGE_KEY \<mapsto> Json_text (JObj [])]"
    by blast
  from only_webhook_is_persisted
         [of ?u OnPageSEO
             "[LOCAL_STORAGE_KEY \<mapsto> Json_text (JObj [(''Rank Tracker'', JInfinity True)])]"
             ?clean ?w "[(''Rank Tracker'', JInfinity True)]"]
       b c
  have "fst (updateToolState OnPageSEO ?u
               ([LOCAL_STORAGE_KEY \<mapsto> Json_text (JObj [(''Rank Tracker'', JInfinity True)])],
                ?clean))
          = [LOCAL_STORAGE_KEY \<mapsto> Json_text (JObj [(''Rank Tracker'', JInfinity True)])]
            (LOCAL_STORAGE_KEY \<mapsto>
               Json_text (serialised (JObj (AList.update (tool_name OnPageSEO) ?w
                                              [(''Rank Tracker'', JInfinity True)]))))"
    by blast
  then have 2: "fst (updateToolState OnPageSEO ?u
               ([LOCAL_STORAGE_KEY \<mapsto> Json_text (JObj [(''Rank Tracker'', JInfinity True)])],
                ?clean)) LOCAL_STORAGE_KEY
          = Some (Json_text (JObj [(''Rank Tracker'', JNull), (''On-Page SEO'', ?w)]))"
    by (simp only: g fun_upd_same)
  from only_webhook_is_persisted
         [of ?u OnPageSEO "[LOCAL_STORAGE_KEY \<mapsto> Json_text (JArr [JInfinity True])]"
             ?clean ?w _ "[JInfinity True]"]
       b d
  have "fst (updateToolState OnPageSEO ?u
               ([LOCAL_STORAGE_KEY \<mapsto> Json_text (JArr [JInfinity True])], ?clean))
          = [LOCAL_STORAGE_KEY \<mapsto> Json_text (JArr [JInfinity True])]
            (LOCAL_STORAGE_KEY \<mapsto> Json_text (serialised (JArr [JInfinity True])))"
    by blast
  then have 3: "fst (updateToolState OnPageSEO ?u
               ([LOCAL_STORAGE_KEY \<mapsto> Json_text (JArr [JInfinity True])], ?clean))
               LOCAL_STORAGE_KEY
          = Some (Json_text (JArr [JNull]))"
    by (simp only: g fun_upd_same)
  from only_webhook_is_persisted
         [of ?u OnPageSEO "[LOCAL_STORAGE_KEY \<mapsto> Json_text JNull]" ?clean ?w]
       b e f
  have 4: "fst (updateToolState OnPageSEO ?u
                  ([LOCAL_STORAGE_KEY \<mapsto> Json_text JNull], ?clean))
             = [LOCAL_STORAGE_KEY \<mapsto> Json_text JNull]"
    and 5: "snd (updateToolState OnPageSEO ?u
                  ([LOCAL_STORAGE_KEY \<mapsto> Json_text JNull], ?clean)) RankTracker
             = fresh_state RankTracker (JStr [])"
    by blast+
  from a b c e f 1 2 3 4 5 show ?thesis
    by blast
qed

section \<open>One request at a time\<close>

lemma not_disabled_filled:
  assumes "\<not> submit_disabled t state"
  shows "required_filled t state" and "\<not> truthy (state ''isLoading'')"
  using assms by (cases t; simp add: required_filled_def falsy_def)+

lemma begin_sets_loading:
  assumes "\<not> submit_disabled t state" and "submit_begin t state = (state1, r)"
  shows "truthy (state1 ''isLoading'')" and "r \<noteq> None"
proof -
  from submit_begin_filled [OF not_disabled_filled(1) [OF assms(1)]] assms(2)
  have "state1 = state ++ [''isLoading'' \<mapsto> JBool True, ''error'' \<mapsto> JNull,
                           ''result'' \<mapsto> JNull, ''rawResponse'' \<mapsto> JNull] \<and> r \<noteq> None"
    by auto
  then show "truthy (state1 ''isLoading'')" and "r \<noteq> None"
    by simp_all
qed

lemma settle_clears_loading:
  "submit_settle t state outcome ''isLoading'' = Some (JBool False)"
  by (simp add: submit_settle_unfold split: prod.splits option.splits)

lemma initial_not_loading:
  "initialAppState ls t ''isLoading'' = Some (JBool False)"
proof (cases "initial_try ls")
  case (Inl e)
  then show ?thesis
    by (cases t) (simp_all add: initialAppState_def)
next
  case (Inr st)
  then have "\<exists>w. st t = fresh_state t w"
    by (cases t) (auto simp: initial_try_def split: sum.splits)
  with Inr show ?thesis
    by (cases t) (auto simp: initialAppState_def)
qed

lemma edit_keeps_loading:
  assumes "f \<in> set (input_fields t)"
    and "updateToolState t [f \<mapsto> JStr v] (ls, app) = (ls', app')"
  shows "app' u ''isLoading'' = app u ''isLoading''"
  using assms by (cases t) (auto simp: updateToolState_def)

lemma step_preserves_balanced:
  assumes "step c e c'" and "balanced c"
  shows "balanced c'"
  using assms
proof (induction rule: step.induct)
  case (click t app state1 r ls pending)
  from not_disabled_filled(2) [OF click(1)] click(3) have "pending t = 0"
    by (simp add: balanced_def)
  moreover from begin_sets_loading [OF click(1,2)]
  have "truthy (state1 ''isLoading'')" and "r \<noteq> None"
    by simp_all
  ultimately show ?case
    using click(3) by (auto simp: balanced_def)
next
  case (settled pending t ls app outcome)
  then have "pending t = 1"
    by (auto simp: balanced_def split: if_splits)
  with settled(2) show ?case
    by (auto simp: balanced_def settle_clears_loading)
next
  case (edit app t f v ls ls' app' pending)
  from edit_keeps_loading [OF edit(2,3)]
  have "\<And>u. app' u ''isLoading'' = app u ''isLoading''" .
  with edit(4) show ?case
    by (simp add: balanced_def)
qed

lemma reachable_balanced:
  assumes "reachable c"
  shows "balanced c"
  using assms
proof (induction rule: reachable.induct)
  case (start ls)
  show ?case
    by (simp add: balanced_def initial_not_loading)
next
  case (after c e c')
  then show ?case
    using step_preserves_balanced by blast
qed

lemma loading_cleared_by_settle_only:
  assumes "step c e c'"
    and "truthy (fst (snd c) t ''isLoading'')"
    and "\<not> truthy (fst (snd c') t ''isLoading'')"
  shows "\<exists>outcome. e = Settled t outcome"
  using assms
proof (induction rule: step.induct)
  case (click u app state1 r ls pending)
  from begin_sets_loading(1) [OF click(1,2)] click(3,4) show ?case
    by (cases "u = t") auto
next
  case (settled pending u ls app outcome)
  then show ?case
    by (cases "u = t") auto
next
  case (edit app u f v ls ls' app' pending)
  from edit_keeps_loading [OF edit(2,3)] edit(4,5) show ?case
    by simp
qed

lemma no_click_while_loading:
  assumes "truthy (app t ''isLoading'')"
  shows "\<not> step (ls, app, pending) (Click t) c'"
proof
  assume "step (ls, app, pending) (Click t) c'"
  then have "\<not> submit_disabled t (app t)"
    by (cases rule: step.cases) auto
  with assms show False
    by (cases t) simp_all
qed

lemma no_edit_while_loading:
  assumes "truthy (app t ''isLoading'')"
  shows "\<not> step (ls, app, pending) (Edit t f v) c'"
proof
  assume "step (ls, app, pending) (Edit t f v) c'"
  then have "\<not> inputs_disabled (app t)"
    by (cases rule: step.cases) auto
  with assms show False
    by (simp add: inputs_disabled_def)
qed

lemma typed_topic_state:
  "snd typed_topic KeywordGenerator ''webhook'' = Some (JStr ''https://n8n.example/hook'')"
  "snd typed_topic KeywordGenerator ''topic'' = Some (JStr ''seo'')"
  "snd typed_topic KeywordGenerator ''isLoading'' = Some (JBool False)"
  by (simp_all add: typed_topic_def typed_webhook_def updateToolState_def
        initialAppState_def initial_try_def)

lemma reachable_clicked: "reachable clicked"
proof -
  have r0: "reachable (Map.empty, initialAppState Map.empty, \<lambda>t. 0)"
    by (rule reachable.start)
  have "step (Map.empty, initialAppState Map.empty, \<lambda>t. 0)
          (Edit KeywordGenerator ''webhook'' ''https://n8n.example/hook'')
          (fst typed_webhook, snd typed_webhook, \<lambda>t. 0)"
    by (rule step.edit)
       (simp_all add: inputs_disabled_def initial_not_loading typed_webhook_def)
  with r0 have r1: "reachable (fst typed_webhook, snd typed_webhook, \<lambda>t. 0)"
    by (rule reachable.after)
  have "step (fst typed_webhook, snd typed_webhook, \<lambda>t. 0)
          (Edit KeywordGenerator ''topic'' ''seo'')
          (fst typed_topic, snd typed_topic, \<lambda>t. 0)"
    by (rule step.edit)
       (simp_all add: inputs_disabled_def initial_not_loading typed_webhook_def
          typed_topic_def updateToolState_def)
  with r1 have r2: "reachable (fst typed_topic, snd typed_topic, \<lambda>t. 0)"
    by (rule reachable.after)
  have nd: "\<not> submit_disabled KeywordGenerator (snd typed_topic KeywordGenerator)"
    by (simp add: typed_topic_state falsy_def)
  obtain state1 r where b: "submit_begin KeywordGenerator (snd typed_topic KeywordGenerator) = (state1, r)"
    by (cases "submit_begin KeywordGenerator (snd typed_topic KeywordGenerator)") auto
  from begin_sets_loading(2) [OF nd b] obtain q where q: "r = Some q"
    by auto
  from step.click [of KeywordGenerator "snd typed_topic" state1 r "fst typed_topic" "\<lambda>t. 0"]
       nd b q
  have "step (fst typed_topic, snd typed_topic, \<lambda>t. 0) (Click KeywordGenerator) clicked"
    by (simp add: clicked_def)
  with r2 show ?thesis
    by (rule reachable.after)
qed

text \<open>
  Claim C7: in every configuration the page can reach, a tool has at most one request
  out, and it has one exactly when its \<^verbatim>\<open>isLoading\<close> is true. While \<^verbatim>\<open>isLoading\<close> is
  true the tool's submit button and inputs are disabled, so neither a click that would
  start a second request nor an edit can happen. No transition other than the end of the
  request clears \<^verbatim>\<open>isLoading\<close>: the system has no time-out and no cancellation, and when
  the flag is cleared the tool has no request out.
\<close>

theorem one_request_per_tool:
  assumes "reachable (ls, app, pending)"
  shows "pending t \<le> 1
       \<and> (pending t = 1 \<longleftrightarrow> truthy (app t ''isLoading''))
       \<and> (truthy (app t ''isLoading'') \<longrightarrow>
            submit_disabled t (app t) \<and> inputs_disabled (app t)
            \<and> (\<forall>c'. \<not> step (ls, app, pending) (Click t) c')
            \<and> (\<forall>f v c'. \<not> step (ls, app, pending) (Edit t f v) c'))
       \<and> (\<forall>e ls' app' pending'.
            step (ls, app, pending) e (ls', app', pending')
            \<and> truthy (app t ''isLoading'') \<and> \<not> truthy (app' t ''isLoading'')
            \<longrightarrow> (\<exists>outcome. e = Settled t outcome) \<and> pending' t = 0)"
proof -
  from reachable_balanced [OF assms]
  have b: "pending t = (if truthy (app t ''isLoading'') then 1 else 0)"
    by (simp add: balanced_def)
  have d: "submit_disabled t (app t) \<and> inputs_disabled (app t)"
    if "truthy (app t ''isLoading'')"
    using that by (cases t) (simp_all add: inputs_disabled_def)
  have s: "(\<exists>outcome. e = Settled t outcome) \<and> pending' t = 0"
    if st: "step (ls, app, pending) e (ls', app', pending')"
      and l: "truthy (app t ''isLoading'')" and l': "\<not> truthy (app' t ''isLoading'')"
    for e ls' app' pending'
  proof -
    have "reachable (ls', app', pending')"
      using assms st by (rule reachable.after)
    from reachable_balanced [OF this] l' have "pending' t = 0"
      by (simp add: balanced_def)
    moreover from loading_cleared_by_settle_only [OF st, of t] l l'
    have "\<exists>outcome. e = Settled t outcome"
      by simp
    ultimately show ?thesis
      by simp
  qed
  from b d s no_click_while_loading no_edit_while_loading show ?thesis
    by (auto split: if_splits)
qed

theorem one_request_per_tool_witness:
  "reachable clicked
   \<and> truthy (fst (snd clicked) KeywordGenerator ''isLoading'')
   \<and> snd (snd clicked) KeywordGenerator = 1
   \<and> submit_disabled KeywordGenerator (fst (snd clicked) KeywordGenerator)
   \<and> inputs_disabled (fst (snd clicked) KeywordGenerator)
   \<and> (\<forall>c'. \<not> step clicked (Click KeywordGenerator) c')"
proof -
  have l: "truthy (fst (snd clicked) KeywordGenerator ''isLoading'')"
    by (simp add: clicked_def KeywordGenerator_begin_def typed_topic_state falsy_def)
  have c: "clicked = (fst clicked, fst (snd clicked), snd (snd clicked))"
    by simp
  from reachable_clicked c
  have "reachable (fst clicked, fst (snd clicked), snd (snd clicked))"
    by simp
  from one_request_per_tool [OF this, of KeywordGenerator] l reachable_clicked show ?thesis
    by simp
qed

section \<open>Code spans in the report renderer\<close>

lemma escapeHtml_Cons: "escapeHtml (c # s) = html_entity c @ escapeHtml s"
  by (simp add: escapeHtml_def replace_all_char_def html_entity_def)

text \<open>
  The five replacements of \<^verbatim>\<open>escapeHtml\<close>, made one after the other, put each of the
  five characters into its entity and leave the others alone.
\<close>

lemma escapeHtml_entities: "escapeHtml s = concat (map html_entity s)"
  by (induction s) (simp_all add: escapeHtml_Cons, simp add: escapeHtml_def replace_all_char_def)

text \<open>
  In the text handed to the first replacement of \<^verbatim>\<open>processLine\<close>, what precedes the
  first backtick is kept, and when the next backtick follows with no line terminator in
  between, the content between the two comes out with every special character as its
  entity.
\<close>

lemma code_close_found:
  assumes "CHR 0x60 \<notin> set content" and "\<forall>x \<in> set content. \<not> line_terminator x"
  shows "code_close (content @ CHR 0x60 # rest) = Some (content, rest)"
  using assms by (induction content) auto

lemma codeSpans_plain:
  assumes "CHR 0x60 \<notin> set pre"
  shows "codeSpans (pre @ xs) = pre @ codeSpans xs"
  using assms by (induction pre) auto

lemma codeSpans_span:
  assumes "CHR 0x60 \<notin> set pre" and "CHR 0x60 \<notin> set content"
    and "\<forall>x \<in> set content. \<not> line_terminator x"
  shows "codeSpans (pre @ CHR 0x60 # content @ CHR 0x60 # rest)
           = pre @ ''<code>'' @ concat (map html_entity content) @ ''</code>'' @ codeSpans rest"
proof -
  have "codeSpans (CHR 0x60 # content @ CHR 0x60 # rest)
          = ''<code>'' @ escapeHtml content @ ''</code>'' @ codeSpans rest"
    using code_close_found [OF assms(2,3)] by simp
  then show ?thesis
    using codeSpans_plain [OF assms(1)] by (simp add: escapeHtml_entities)
qed

text \<open>
  The same order of substitutions lets a lone backtick on one line of a paragraph pair
  with the opening backtick of a span on the next line, across the tag put in for the
  line break: the later span's \<^verbatim>\<open><b>\<close> then comes out as a tag, not as its entities.
\<close>

lemma later_span_comes_out_raw:
  "parseMarkdown (''it'' @ CHR 0x60 # ''s'' @ CHR 0x0A # CHR 0x60 # ''<b>'' @ [CHR 0x60])
     = ''<p>it<code>s&lt;br /&gt;</code><b>'' @ CHR 0x60 # ''</p>''"
  by code_simp

text \<open>
  Claim C8 says that code-span content is escaped before any other markdown substitution
  is applied, as the comment above \<^verbatim>\<open>parseMarkdown\<close> does. In a paragraph the code
  replaces every newline by \<^verbatim>\<open><br />\<close> first and only then looks for code spans. For the
  report text of a backtick, \<^verbatim>\<open>a\<close>, a newline, \<^verbatim>\<open>b\<close> and a backtick, the tag put in for
  the line break is therefore taken as span content and escaped: the page shows
  \<^verbatim>\<open>a<br />b\<close> as code. With the spans processed first, the tag would have stayed a tag.
\<close>

theorem line_break_tag_is_escaped_in_code_span:
  "parseMarkdown (CHR 0x60 # ''a'' @ CHR 0x0A # ''b'' @ [CHR 0x60])
     = ''<p><code>a&lt;br /&gt;b</code></p>''
   \<and> ''<p>''
       @ replace_all_char (CHR 0x0A) ''<br />''
           (processLine (CHR 0x60 # ''a'' @ CHR 0x0A # ''b'' @ [CHR 0x60]))
       @ ''</p>''
     = ''<p>'' @ CHR 0x60 # ''a<br />b'' @ CHR 0x60 # ''</p>''"
  by code_simp

end
